theory Spec2Isabelle
  imports Complex_Main
begin

section \<open>Conventions\<close>

text \<open>
  The development embeds \<open>api/db/services/paper_search_service.py\<close> (class
  \<open>PaperSearchService\<close>) and the request handlers of \<open>api/apps/paper_search_app.py\<close>.

  \<^item> A Python \<open>str\<close> is a \<open>string\<close>, one \<open>char\<close> per character. Text literals that
    are Chinese in the source cannot be written in this alphabet: each is a named constant
    \<open>zh_...\<close> holding an English rendering of the literal. Identifiers, dictionary keys and
    status values (\<open>pending\<close>, \<open>completed\<close>, \<open>failed\<close>, \<open>cancelled\<close>) are the source's own.
    Where the encoding of a text matters (\<open>_generate_word_document\<close>), a \<open>str\<close> is the list
    of its code points and the Chinese literals are given by their code points.
  \<^item> A value decoded from JSON is a \<open>json\<close>: what the model answers under a key need not
    be a list of strings.
  \<^item> An exception is a value of type \<open>exn\<close>; a call that may raise returns \<open>exn + 'a\<close>
    with \<open>Inl\<close> for the raise.
  \<^item> The database tables, the Redis queue and the log of requests sent to the chat model
    form the record \<open>world\<close>; an operation takes the world and returns the new one.
  \<^item> Collaborators whose code is outside the service (the chat model, the retriever, the
    document store, the knowledge-base and tenant services, the JSON encoder, the clock,
    the Word-document library) are the fields of the record \<open>env\<close>.
\<close>

datatype exn =
    IntegrityError | DoesNotExist | TypeError | AttributeError | ValueError
  | UnicodeEncodeError | Failure string

section \<open>Text helpers\<close>

text \<open>Python's \<open>str(n)\<close> of an integer, as the f-strings of the source interpolate it.\<close>

fun str_nat :: "nat \<Rightarrow> string" where
  "str_nat n =
     (if n < 10 then [''0123456789'' ! n]
      else str_nat (n div 10) @ [''0123456789'' ! (n mod 10)])"

declare str_nat.simps [simp del]

definition str_int :: "int \<Rightarrow> string" where
  "str_int i = (if i < 0 then ''-'' @ str_nat (nat (- i)) else str_nat (nat i))"

text \<open>
  \<open>str.split()\<close> with no argument: the maximal runs of non-whitespace characters.
  \<open>is_space\<close> lists the characters below 256 that Python counts as whitespace.
\<close>

definition is_space :: "char \<Rightarrow> bool" where
  "is_space c =
     (c \<in> set [CHR '' '', CHR 0x09, CHR 0x0A, CHR 0x0B, CHR 0x0C, CHR 0x0D,
                CHR 0x1C, CHR 0x1D, CHR 0x1E, CHR 0x1F, CHR 0x85, CHR 0xA0])"

fun split_acc :: "string \<Rightarrow> string \<Rightarrow> string list" where
  "split_acc cur [] = (if cur = [] then [] else [cur])"
| "split_acc cur (c # cs) =
     (if is_space c then (if cur = [] then split_acc [] cs else cur # split_acc [] cs)
      else split_acc (cur @ [c]) cs)"

definition split_ws :: "string \<Rightarrow> string list" where
  "split_ws s = split_acc [] s"

text \<open>\<open>s.split(sep)\<close> for a separator of one character, \<open>s.strip(chars)\<close> and \<open>s.strip()\<close>.\<close>

fun split_on :: "'a \<Rightarrow> 'a list \<Rightarrow> 'a list list" where
  "split_on sep [] = [[]]"
| "split_on sep (c # cs) =
     (if c = sep then [] # split_on sep cs
      else (case split_on sep cs of
              [] \<Rightarrow> [[c]]
            | l # ls \<Rightarrow> (c # l) # ls))"

definition strip_chars :: "('a \<Rightarrow> bool) \<Rightarrow> 'a list \<Rightarrow> 'a list" where
  "strip_chars stripped s = rev (dropWhile stripped (rev (dropWhile stripped s)))"

definition strip :: "string \<Rightarrow> string" where
  "strip s = strip_chars is_space s"

text \<open>\<open>re.sub(pattern, repl, s)\<close> for a pattern that is plain text: the occurrences from
  left to right, none overlapping another.\<close>

fun replace_all :: "string \<Rightarrow> string \<Rightarrow> string \<Rightarrow> string" where
  "replace_all pat rep [] = []"
| "replace_all pat rep (c # cs) =
     (if pat \<noteq> [] \<and> take (length pat) (c # cs) = pat
      then rep @ replace_all pat rep (drop (length pat - 1) cs)
      else c # replace_all pat rep cs)"

text \<open>\<open>sep.join(parts)\<close>.\<close>

fun join :: "string \<Rightarrow> string list \<Rightarrow> string" where
  "join sep [] = []"
| "join sep [x] = x"
| "join sep (x # y # ys) = x @ sep @ join sep (y # ys)"

section \<open>The chat model and the world\<close>

text \<open>
  One request to \<open>LLMBundle(tenant_id, LLMType.CHAT).chat(system, history, params)\<close>, where
  the history is a single user message. Building the bundle and the call itself both stand
  inside the same \<open>try\<close> wherever the service uses them, so one answer of type
  \<open>exn + string\<close> covers both.
\<close>

record llm_call =
  lc_tenant :: string
  lc_system :: string
  lc_user :: string
  lc_temperature :: real
  lc_max_tokens :: nat

text \<open>
  A value that \<open>json.loads\<close> returns. An object lists its entries in the order of the text;
  a later entry of the same key wins. A number is an integer here: nothing that is modelled
  tells a JSON real from an integer (neither is a string, a list or an object).
\<close>

datatype json =
    JNull
  | JBool bool
  | JNum int
  | JStr string
  | JList "json list"
  | JObj "(string \<times> json) list"

text \<open>
  The dictionary that \<open>extract_keywords\<close> returns. On the JSON path a field holds whatever
  value the model's answer gives that key, so a field is a \<open>json\<close>, not a list of strings.
\<close>

record keyword_bundle =
  keyword_en :: json
  keyword_cn :: json
  searchquery_en :: json
  searchquery_cn :: json
  time_range :: json

section \<open>Data model\<close>

text \<open>
  A paper is a dictionary; a field is \<open>None\<close> when the key is absent, so that
  \<open>paper.get(key, default)\<close> is a \<open>case\<close> on the field. A chunk of the retriever is a
  dictionary in the same way.
\<close>

record paper =
  p_uid :: "string option"
  p_title :: "string option"
  p_abstract :: "string option"
  p_source :: "string option"
  p_selected :: "bool option"
  p_similarity :: "real option"
  p_doc_id :: "string option"
  p_kb_id :: "string option"
  p_full_content :: "string option"

record chunk =
  c_doc_id :: "string option"
  c_content_with_weight :: "string option"
  c_similarity :: "real option"
  c_kb_id :: "string option"
  c_position_int :: "int option"

record kb =
  kb_id :: string
  kb_tenant_id :: string
  kb_embd_id :: string

record document =
  d_id :: string
  d_name :: string

text \<open>
  A row of \<open>PaperSurveyRecord\<close>, with the columns the sources write or read. The first nine
  are the keys of the dictionary \<open>survey_record\<close> that the handler \<open>paper_survey\<close> builds;
  \<open>task_id\<close>, \<open>process_begin_at\<close> and \<open>updated_at\<close> are written by \<open>queue_survey_task\<close> and
  \<open>cancel_survey\<close> and are \<open>None\<close> until then. The column \<open>created_at\<close>, which no source
  writes, is left out.
\<close>

record survey =
  sv_id :: string
  sv_tenant_id :: string
  sv_user_id :: string
  sv_search_record_id :: string
  sv_survey_content :: string
  sv_survey_title :: string
  sv_status :: string
  sv_progress :: real
  sv_progress_msg :: string
  sv_task_id :: "string option"
  sv_process_begin_at :: "nat option"
  sv_updated_at :: "nat option"

record task =
  t_id :: string
  t_doc_id :: string
  t_from_page :: nat
  t_to_page :: nat
  t_task_type :: string
  t_priority :: int
  t_progress :: real
  t_progress_msg :: string
  t_begin_at :: nat

text \<open>The message pushed to Redis: the task's fields and the payload snapshot.\<close>

record task_message =
  tm_task :: task
  tm_survey_record :: survey
  tm_papers :: "paper list"
  tm_tenant_id :: string

record search_row =
  sr_id :: string
  sr_tenant_id :: string
  sr_user_id :: string
  sr_query :: string
  sr_keywords :: string
  sr_search_results :: string
  sr_result_count :: nat

text \<open>The arguments of \<open>retriever.retrieval(...)\<close>.\<close>

record retrieval_request =
  rq_query :: string
  rq_embd_mdl :: string
  rq_tenant_id :: string
  rq_kb_ids :: "string list"
  rq_page :: nat
  rq_page_size :: nat
  rq_similarity_threshold :: real
  rq_vector_similarity_weight :: real
  rq_top :: nat

text \<open>
  In \<open>_generate_word_document\<close> the encoding of the text matters, so there a \<open>str\<close> is the
  list of its code points (\<open>ustr\<close>); a lone surrogate is a code point from \<open>0xD800\<close> to
  \<open>0xDFFF\<close>. \<open>ustr_of\<close> embeds a \<open>string\<close> of the other sections.
\<close>

type_synonym ustr = "nat list"

definition ustr_of :: "string \<Rightarrow> ustr" where
  "ustr_of s = map of_char s"

text \<open>What \<open>_generate_word_document\<close> asks of the Word-document library.\<close>

datatype run = Run ustr | BoldRun ustr | CitationRun ustr

datatype block =
    Heading ustr nat
  | CenteredHeading ustr nat
  | Paragraph ustr
  | CenteredParagraph ustr
  | StyledParagraph ustr string
  | RunParagraph "string option" "run list"

type_synonym bytes = "nat list"

section \<open>The environment\<close>

text \<open>
  \<^item> \<open>llm_chat\<close>: the chat model. \<open>json_loads\<close>: \<open>json.loads\<close>, \<open>None\<close> for
    \<open>JSONDecodeError\<close>. \<open>json_dumps_keywords\<close>, \<open>json_dumps_papers\<close>: \<open>json.dumps\<close>.
  \<^item> \<open>kb_query_tenant\<close>, \<open>kb_query_public\<close>: \<open>KnowledgebaseService.query\<close> by tenant and
    by public permission; like every database statement they may raise.
  \<^item> \<open>search_update_error n\<close>: the exception that the \<open>n\<close>-th \<open>update ... execute()\<close> of
    \<open>search_papers\<close> raises (\<open>n = 0\<close> for the keywords, \<open>n = 1\<close> for the results), if any.
  \<^item> \<open>embedding_model\<close>, \<open>retrieval\<close>, \<open>document_get_by_id\<close>, \<open>chunk_list\<close>: the embedding
    bundle, the retriever and the document service.
  \<^item> \<open>queue_product\<close>, \<open>get_svr_queue_name\<close>: Redis. \<open>clock_now\<close>, \<open>strftime\<close>: the clock.
  \<^item> \<open>tenant_get_info_by\<close>, \<open>get_tenants_by_user_id\<close>: the tenant services.
  \<^item> \<open>docx_save\<close>: the document library, asked to build and save the given blocks.
\<close>

record env =
  llm_chat :: "llm_call \<Rightarrow> exn + string"
  json_loads :: "string \<Rightarrow> json option"
  chunk_list :: "string \<Rightarrow> string \<Rightarrow> string list \<Rightarrow> exn + chunk list"
  kb_query_tenant :: "string \<Rightarrow> exn + kb list"
  kb_query_public :: "exn + kb list"
  search_update_error :: "nat \<Rightarrow> exn option"
  embedding_model :: "string \<Rightarrow> string \<Rightarrow> exn + string"
  retrieval :: "retrieval_request \<Rightarrow> exn + chunk list"
  document_get_by_id :: "string \<Rightarrow> exn + document option"
  json_dumps_keywords :: "keyword_bundle \<Rightarrow> string"
  json_dumps_papers :: "paper list \<Rightarrow> string"
  queue_product :: "string \<Rightarrow> task_message \<Rightarrow> bool"
  get_svr_queue_name :: "int \<Rightarrow> string"
  clock_now :: nat
  strftime :: "string \<Rightarrow> nat \<Rightarrow> string"
  tenant_get_info_by :: "string \<Rightarrow> string list"
  get_tenants_by_user_id :: "string \<Rightarrow> string list"
  docx_save :: "block list \<Rightarrow> exn + bytes"

section \<open>The world\<close>

text \<open>
  Modelled from the spec: the table declarations (\<open>api/db/db_models.py\<close>) are not among the
  sources. The spec's data model gives every record an id that is an opaque unique
  identifier, so a table is a finite map from id to row, and an insert of an id that is
  already present is rejected with \<open>IntegrityError\<close>.
\<close>

record world =
  surveys :: "string \<rightharpoonup> survey"
  tasks :: "string \<rightharpoonup> task"
  searches :: "string \<rightharpoonup> search_row"
  redis_queue :: "(string \<times> task_message) list"
  llm_calls :: "llm_call list"

text \<open>\<open>PaperSurveyRecord.create(**survey_record)\<close>.\<close>

definition create_survey :: "survey \<Rightarrow> world \<Rightarrow> exn + world" where
  "create_survey r w =
     (case surveys w (sv_id r) of
        Some old \<Rightarrow> Inl IntegrityError
      | None \<Rightarrow> Inr (w\<lparr>surveys := (surveys w)(sv_id r \<mapsto> r)\<rparr>))"

text \<open>\<open>PaperSurveyRecord.update(...).where(PaperSurveyRecord.id == sid).execute()\<close>.\<close>

definition update_survey :: "string \<Rightarrow> (survey \<Rightarrow> survey) \<Rightarrow> world \<Rightarrow> world" where
  "update_survey sid f w =
     (case surveys w sid of
        None \<Rightarrow> w
      | Some r \<Rightarrow> w\<lparr>surveys := (surveys w)(sid \<mapsto> f r)\<rparr>)"

text \<open>\<open>PaperSurveyRecord.get((PaperSurveyRecord.id == sid) & ...)\<close>, which raises
  \<open>DoesNotExist\<close> when no row matches.\<close>

definition get_survey_where :: "string \<Rightarrow> (survey \<Rightarrow> bool) \<Rightarrow> world \<Rightarrow> exn + survey" where
  "get_survey_where sid cond w =
     (case surveys w sid of
        None \<Rightarrow> Inl DoesNotExist
      | Some r \<Rightarrow> (if cond r then Inr r else Inl DoesNotExist))"


definition do_chat :: "env \<Rightarrow> llm_call \<Rightarrow> world \<Rightarrow> (exn + string) \<times> world" where
  "do_chat env c w = (llm_chat env c, w\<lparr>llm_calls := llm_calls w @ [c]\<rparr>)"

section \<open>Keyword extraction\<close>

text \<open>
  The instruction prompt of \<open>extract_keywords\<close> is an f-string with three interpolations:
  \<open>{keywords_num}\<close> twice and \<open>{query_num}\<close> once. The four literal segments around them:
\<close>

definition zh_kw_1 :: string where
  "zh_kw_1 = ''\<newline>Infer from the user's input the research direction the user is interested in, and output ''"

definition zh_kw_2 :: string where
  "zh_kw_2 = '' keywords that are closest to the user's needs. Output these keywords directly as JSON, without any further explanation, in the format\<newline>  {keyword_en: [ English keywords ], keyword_cn: [the corresponding Chinese keywords], searchquery_en : [ English search sentences ], searchquery_cn : [Chinese search sentences], time_range: [2025, 2024, 2023] }.\<newline>Mind the following points:\<newline>1. The keywords must reflect the topic of the user's input accurately.\<newline>2. Make sure the output strictly follows the given JSON format.\<newline>3. The output must not contain any XML tag.\<newline>4. Time range: output an array of years according to the time the user describes, the empty array [] by default.\<newline>\<newline>The steps of the task:\<newline>- First, read and analyse the user's input carefully and identify the core topic or research direction; the keywords must lie in that field.\<newline>- Next, from the identified topic, extract ''"

definition zh_kw_3 :: string where
  "zh_kw_3 = '' closely related keywords, in both an English and a Chinese version.\<newline>- Then, from the keywords and the user's intent, propose ''"

definition zh_kw_4 :: string where
  "zh_kw_4 = '' search sentences that can be used to retrieve papers, in both an English and a Chinese version\<newline>- Identify the time range:\<newline>  * if the user mentions the last three years, output [2025, 2024, 2023]\<newline>  * if the user mentions the last five years, output [2025, 2024, 2023, 2022, 2021]\<newline>  * if the user mentions after 2020, output [2025, 2024, 2023, 2022, 2021]\<newline>  * if the user mentions a specific year such as 2023, output [2023]\<newline>  * if the user mentions a range of years such as 2022-2024, output [2022, 2023, 2024]\<newline>  * if the user mentions no time, output []\<newline>- Finally, arrange the output in the given JSON format and make sure the format is right.\<newline>\<newline>If the user's input is not clear enough, make a reasonable guess from common research fields.\<newline>\<newline>Example:\<newline>User input: I am interested in applications of artificial intelligence in medicine, especially disease diagnosis with deep learning, and would like to know the progress of the last three years.\<newline>Output: {keyword_en: [Artificial Intelligence,Medical Applications,Deep Learning,Disease Diagnosis,Healthcare], keyword_cn: [...] , searchquery_en: [Deep Learning Applications in Disease Diagnosis, Innovations of Artificial Intelligence in Healthcare, Artificial Intelligence-based Disease Diagnosis Technologies, Challenges and Opportunities of Deep Learning in Healthcare], searchquery_cn : [ ... ], time_range: [2025, 2024, 2023]}\<newline>''"

definition keyword_prompt :: "int \<Rightarrow> int \<Rightarrow> string" where
  "keyword_prompt keywords_num query_num =
     zh_kw_1 @ str_int keywords_num @ zh_kw_2 @ str_int keywords_num @ zh_kw_3
       @ str_int query_num @ zh_kw_4"

subsection \<open>Parsing the model's answer\<close>

text \<open>
  \<open>_parse_keyword_response(response)\<close> first cleans the answer: \<open>strip()\<close>, then three
  \<open>re.sub\<close> calls. The first removes a leading \<open>```json\<close> and the whitespace after it; the
  second replaces the text \<open>fence_pattern\<close> by \<open>fence_replacement\<close>; the third removes every
  \<open>```\<close>.
\<close>

definition strip_json_fence :: "string \<Rightarrow> string" where
  "strip_json_fence s =
     (if take 7 s = ''```json'' then dropWhile is_space (drop 7 s) else s)"

definition fence_replacement :: string where
  "fence_replacement = ''    @classmethod\<newline>    def _build_survey_prompt''"

definition fence_pattern :: string where
  "fence_pattern = ''```\<newline>\<newline>'' @ fence_replacement"

definition clean_response :: "string \<Rightarrow> string" where
  "clean_response response =
     replace_all ''```'' []
       (replace_all fence_pattern fence_replacement (strip_json_fence (strip response)))"

text \<open>
  The salvage path: \<open>re.findall(r'"key":\s*\[([^\]]+)\]', cleaned)\<close>, of which only the first
  match is used. A match at the start of the text: the key between double quotes and a
  colon, whitespace, an opening bracket, one or more characters other than the closing
  bracket, and the closing bracket; its group is the text between the brackets.
\<close>

definition dquote :: char where
  "dquote = CHR 0x22"

definition match_list_field :: "string \<Rightarrow> string \<Rightarrow> string option" where
  "match_list_field key s =
     (let pat = dquote # key @ [dquote, CHR '':'']
      in if take (length pat) s = pat
         then (case dropWhile is_space (drop (length pat) s) of
                 [] \<Rightarrow> None
               | c # body \<Rightarrow>
                   (let inner = takeWhile (\<lambda>x. x \<noteq> CHR '']'') body
                    in if c = CHR ''['' \<and> inner \<noteq> [] \<and> length inner < length body
                       then Some inner else None))
         else None)"

fun find_list_field :: "string \<Rightarrow> string \<Rightarrow> string option" where
  "find_list_field key [] = None"
| "find_list_field key (c # cs) =
     (case match_list_field key (c # cs) of
        Some inner \<Rightarrow> Some inner
      | None \<Rightarrow> find_list_field key cs)"

text \<open>The local function \<open>parse_list_str\<close>: the items between commas, stripped of
  whitespace and then of quotes, the empty ones left out.\<close>

definition parse_list_str :: "string option \<Rightarrow> string list" where
  "parse_list_str list_str =
     (case list_str of
        None \<Rightarrow> []
      | Some inner \<Rightarrow>
          filter (\<lambda>item. item \<noteq> [])
            (map (\<lambda>item. strip_chars (\<lambda>c. c \<in> set [dquote, CHR 0x27]) (strip item))
               (split_on CHR '','' inner)))"

text \<open>\<open>result.get(key, [])\<close> on the decoded object.\<close>

definition dict_get :: "(string \<times> json) list \<Rightarrow> string \<Rightarrow> json \<Rightarrow> json" where
  "dict_get kvs k d = (case map_of (rev kvs) k of Some v \<Rightarrow> v | None \<Rightarrow> d)"

text \<open>
  \<open>_parse_keyword_response\<close>. Only \<open>JSONDecodeError\<close> is caught: a decoded value that is
  not an object has no \<open>get\<close>, and the \<open>AttributeError\<close> leaves the function.
\<close>

definition parse_keyword_response :: "env \<Rightarrow> string \<Rightarrow> exn + keyword_bundle" where
  "parse_keyword_response env response =
     (let cleaned_response = clean_response response
      in case json_loads env cleaned_response of
           Some result \<Rightarrow>
             (case result of
                JObj kvs \<Rightarrow>
                  Inr \<lparr>keyword_en = dict_get kvs ''keyword_en'' (JList []),
                       keyword_cn = dict_get kvs ''keyword_cn'' (JList []),
                       searchquery_en = dict_get kvs ''searchquery_en'' (JList []),
                       searchquery_cn = dict_get kvs ''searchquery_cn'' (JList []),
                       time_range = dict_get kvs ''time_range'' (JList [])\<rparr>
              | JNull \<Rightarrow> Inl AttributeError
              | JBool b \<Rightarrow> Inl AttributeError
              | JNum i \<Rightarrow> Inl AttributeError
              | JStr s \<Rightarrow> Inl AttributeError
              | JList xs \<Rightarrow> Inl AttributeError)
         | None \<Rightarrow>
             Inr \<lparr>keyword_en =
                    JList (map JStr (parse_list_str (find_list_field ''keyword_en'' cleaned_response))),
                  keyword_cn =
                    JList (map JStr (parse_list_str (find_list_field ''keyword_cn'' cleaned_response))),
                  searchquery_en =
                    JList (map JStr
                      (parse_list_str (find_list_field ''searchquery_en'' cleaned_response))),
                  searchquery_cn =
                    JList (map JStr
                      (parse_list_str (find_list_field ''searchquery_cn'' cleaned_response))),
                  time_range =
                    JList (map JStr (parse_list_str (find_list_field ''time_range'' cleaned_response)))\<rparr>)"

subsection \<open>Extraction\<close>

text \<open>
  \<open>extract_keywords(question, tenant_id, keywords_num, query_num)\<close>. The count is
  normalised first, the prompt is built from the normalised count, and the model is asked
  once. The call and \<open>_parse_keyword_response\<close> stand inside one \<open>try\<close>: any exception of
  the model or of the parser leads to the fallback, the first words of the question. The
  function never raises.
\<close>

definition extract_keywords ::
  "env \<Rightarrow> string \<Rightarrow> string \<Rightarrow> int \<Rightarrow> int \<Rightarrow> world \<Rightarrow> keyword_bundle \<times> world" where
  "extract_keywords env question tenant_id keywords_num0 query_num0 w =
     (let keywords_num = (if 12 \<ge> keywords_num0 \<and> keywords_num0 > 1 then keywords_num0 else 5);
          query_num = (if query_num0 \<noteq> 0 then query_num0 else keywords_num);
          prompt = keyword_prompt keywords_num query_num;
          call = \<lparr>lc_tenant = tenant_id, lc_system = prompt, lc_user = question,
                  lc_temperature = 0.6, lc_max_tokens = 512\<rparr>;
          (response, w') = do_chat env call w
      in case (case response of Inl e \<Rightarrow> Inl e | Inr txt \<Rightarrow> parse_keyword_response env txt) of
           Inr result \<Rightarrow> (result, w')
         | Inl e \<Rightarrow>
             (let wordlist = split_ws question;
                  en_keywords = (if int (length wordlist) \<ge> keywords_num
                                 then take (nat keywords_num) wordlist else wordlist);
                  cn_keywords = (if int (length wordlist) \<ge> keywords_num
                                 then take (nat keywords_num) wordlist else wordlist)
              in (\<lparr>keyword_en = JList (map JStr en_keywords),
                   keyword_cn = JList (map JStr cn_keywords),
                   searchquery_en = JList [JStr question],
                   searchquery_cn = JList [JStr question],
                   time_range = JList []\<rparr>, w')))"

section \<open>Retrieval\<close>

text \<open>\<open>d.get(key, default)\<close> on a field that may be absent.\<close>

definition get_or :: "'a option \<Rightarrow> 'a \<Rightarrow> 'a" where
  "get_or v d = (case v of Some x \<Rightarrow> x | None \<Rightarrow> d)"

definition zh_source :: string where
  "zh_source = ''RAGFlow knowledge base''"

text \<open>
  The loop over \<open>ranks.get("chunks", [])\<close>: a chunk whose document was seen is skipped; the
  document is looked up with \<open>DocumentService.get_by_id\<close>, whose answer \<open>(found, doc)\<close> is an
  option here; a chunk whose document is not found is dropped; a lookup that raises ends
  the loop with the exception.
\<close>

fun chunks_to_papers :: "env \<Rightarrow> string list \<Rightarrow> chunk list \<Rightarrow> exn + paper list" where
  "chunks_to_papers env processed_docs [] = Inr []"
| "chunks_to_papers env processed_docs (c # cs) =
     (let doc_id = get_or (c_doc_id c) '''' in
      if doc_id \<in> set processed_docs then chunks_to_papers env processed_docs cs
      else
        (case document_get_by_id env doc_id of
           Inl e \<Rightarrow> Inl e
         | Inr None \<Rightarrow> chunks_to_papers env (doc_id # processed_docs) cs
         | Inr (Some doc) \<Rightarrow>
             (case chunks_to_papers env (doc_id # processed_docs) cs of
                Inl e \<Rightarrow> Inl e
              | Inr rest \<Rightarrow>
                  Inr (\<lparr>p_uid = Some (d_id doc), p_title = Some (d_name doc),
                         p_abstract = Some (take 500 (get_or (c_content_with_weight c) '''')),
                         p_source = Some zh_source, p_selected = Some True,
                         p_similarity = Some (get_or (c_similarity c) 0),
                         p_doc_id = Some doc_id, p_kb_id = Some (get_or (c_kb_id c) ''''),
                         p_full_content = None\<rparr> # rest))))"

text \<open>
  The body of the \<open>try\<close> of \<open>search_papers\<close>: the embedding model of the first knowledge
  base, one retrieval call with the fixed parameters, and the loop over its chunks.
\<close>

definition retrieve_papers :: "env \<Rightarrow> string \<Rightarrow> kb list \<Rightarrow> exn + paper list" where
  "retrieve_papers env search_query all_kbs =
     (case all_kbs of
        [] \<Rightarrow> Inr []
      | first_kb # others \<Rightarrow>
          (case embedding_model env (kb_tenant_id first_kb) (kb_embd_id first_kb) of
             Inl e \<Rightarrow> Inl e
           | Inr embd_mdl \<Rightarrow>
               (case retrieval env
                       \<lparr>rq_query = search_query, rq_embd_mdl = embd_mdl,
                        rq_tenant_id = kb_tenant_id first_kb, rq_kb_ids = map kb_id all_kbs,
                        rq_page = 1, rq_page_size = 30, rq_similarity_threshold = 0.2,
                        rq_vector_similarity_weight = 0.3, rq_top = 1024\<rparr> of
                  Inl e \<Rightarrow> Inl e
                | Inr chunks \<Rightarrow> chunks_to_papers env [] chunks)))"






section \<open>Paper briefs and survey generation\<close>

text \<open>\<open>_get_full_document_content\<close>: the chunks of the document in the order of their
  position, their non-empty texts joined by newlines; the empty string on any exception.\<close>

definition get_full_document_content :: "env \<Rightarrow> string \<Rightarrow> string \<Rightarrow> string list \<Rightarrow> string" where
  "get_full_document_content env doc_id tenant_id kb_ids =
     (case chunk_list env doc_id tenant_id kb_ids of
        Inl e \<Rightarrow> ''''
      | Inr all_chunks \<Rightarrow>
          (let sorted_chunks = sort_key (\<lambda>x. get_or (c_position_int x) 0) all_chunks;
               full_content_parts =
                 filter (\<lambda>content. content \<noteq> '''')
                   (map (\<lambda>x. get_or (c_content_with_weight x) '''') sorted_chunks)
           in join ''\<newline>'' full_content_parts))"

definition zh_unknown_title :: string where
  "zh_unknown_title = ''Unknown title''"

definition zh_sum_1 :: string where
  "zh_sum_1 = ''\<newline>Please write a brief of about 200 characters for the following academic paper:\<newline>\<newline>Paper title: ''"

definition zh_sum_2 :: string where
  "zh_sum_2 = ''\<newline>\<newline>Paper content:\<newline>''"

definition zh_sum_3 :: string where
  "zh_sum_3 = ''  # limit the content length to avoid exceeding the limit\<newline>\<newline>Write the brief with the following structure and make sure it reflects the original accurately:\<newline>1. **Research topic**: summarise the core research topic of the paper\<newline>2. **Main methods**: describe the main methods or techniques the paper uses\<newline>3. **Key results**: summarise the main findings or experimental results\<newline>4. **Novelty**: point out the important innovations or contributions\<newline>5. **Application value**: explain the theoretical or practical significance\<newline>6. **Limitations**: point out the limitations or what remains to be improved\<newline>\<newline>Make sure the brief is accurate, detailed and objective and brings out the core content and contribution of the paper.\<newline>''"

definition zh_title_label :: string where
  "zh_title_label = ''Title: ''"

definition zh_abstract_label :: string where
  "zh_abstract_label = ''Abstract: ''"

text \<open>
  \<open>generate_paper_summary(paper, tenant_id)\<close>: one model call on the first 4000 characters
  of the full content (or of the abstract when there is no full content); on any exception
  the brief is the title and the abstract. The function never raises.
\<close>

definition generate_paper_summary :: "env \<Rightarrow> paper \<Rightarrow> string \<Rightarrow> world \<Rightarrow> string \<times> world" where
  "generate_paper_summary env p tenant_id w =
     (let title = get_or (p_title p) zh_unknown_title;
          content = (if get_or (p_full_content p) '''' \<noteq> '''' then get_or (p_full_content p) ''''
                     else get_or (p_abstract p) '''');
          summary_prompt = zh_sum_1 @ title @ zh_sum_2 @ take 4000 content @ zh_sum_3;
          call = \<lparr>lc_tenant = tenant_id, lc_system = '''', lc_user = summary_prompt,
                  lc_temperature = 0.5, lc_max_tokens = 1024\<rparr>;
          (response, w') = do_chat env call w
      in case response of
           Inr summary_content \<Rightarrow> (summary_content, w')
         | Inl e \<Rightarrow>
             (zh_title_label @ get_or (p_title p) zh_unknown_title @ ''\<newline>''
                @ zh_abstract_label @ get_or (p_abstract p) '''', w'))"

record paper_summary =
  ps_title :: string
  ps_summary :: string

definition zh_brief_1 :: string where
  "zh_brief_1 = ''\<newline>Brief ''"

definition zh_brief_2 :: string where
  "zh_brief_2 = '':\<newline>- Title: ''"

definition zh_brief_3 :: string where
  "zh_brief_3 = ''\<newline>- Brief: ''"

definition zh_brief_4 :: string where
  "zh_brief_4 = ''...  # limit the length to avoid exceeding the limit\<newline>''"

definition zh_survey_1 :: string where
  "zh_survey_1 = ''\<newline>###Goal###\<newline>As an expert in literature reviews, write from the following ''"

definition zh_survey_2 :: string where
  "zh_survey_2 = '' paper briefs a Chinese literature review that is complete in structure and rich in content. Requirements:\<newline>1. Analyse in depth the core views, technical innovations and line of research of the paper behind each brief\<newline>2. Organise the content by technical development / application scenario / research method\<newline>3. Mark the source of every specific technique or view, in the format ##number$\<newline>4. Keep academic rigour and tell the authors' views from the synthesis\<newline>\<newline>###Content of the given briefs###\<newline>''"

definition zh_survey_3 :: string where
  "zh_survey_3 = ''\<newline>\<newline>###Data processing requirements###\<newline>1. **Deep content extraction**:\<newline>   - extract the core methods, experimental results and innovations of each paper\<newline>   - identify the key data, performance figures and comparisons\<newline>   - bring out the technical limitations and the outlook\<newline>\<newline>2. **Comparison across papers**:\<newline>   - compare the technical routes of the papers\<newline>   - analyse how the methods evolved over time\<newline>   - identify research hot spots and trends\<newline>\<newline>###Structure requirements###\<newline>Use a general-specific-general structure with:\<newline>1. **Research background** (merging the motivation and problem statement of the ''"

definition zh_survey_4 :: string where
  "zh_survey_4 = '' papers)\<newline>2. **Analysis of the core technical progress** (by topic, comparing the methods of the papers in depth)\<newline>   - every technical point must cite the content of a specific paper\<newline>   - include technical detail, experimental data and performance comparisons\<newline>   - analyse the strengths, weaknesses and fit of the methods\<newline>3. **Technical challenges and limitations** (from the problems and bottlenecks the papers name)\<newline>4. **Future research directions** (from the suggestions and outlook of the papers)\<newline>\<newline>###Citation rules###\<newline>1. **Citation density**: every technical point, view or figure is tied to at least one paper\<newline>2. **Citation format**: use the format ##number$$, numbered from 1 in the order of the papers\<newline>3. **Depth**: a citation mentions the specific method, result or view\<newline>4. **Coverage**: make sure the paper of every brief is analysed in the review\<newline>\<newline>###Quality###\<newline>1. **Specific**: no generalities, give technical detail and data\<newline>2. **Comparative**: compare the methods and performance of the papers\<newline>3. **Innovative**: bring out the contribution of each paper\<newline>4. **Critical**: analyse the limitations of each method objectively\<newline>\<newline>###Format constraints###\<newline>- Use Markdown with clear heading levels\<newline>- **Citation format**: the format ##number$$ must be used, numbers in the range 1-''"

definition zh_survey_5 :: string where
  "zh_survey_5 = ''\<newline>- **Strictly forbidden**: adding a reference list or a References section\<newline>- **Strictly forbidden**: other citation formats such as [1], (1)\<newline>- Every paragraph must be backed by specific citations\<newline>\<newline>###Citation numbers###\<newline>Cite strictly by the following numbering:\<newline>''"

definition zh_survey_6 :: string where
  "zh_survey_6 = ''\<newline>\<newline>###Example of the citation style###\<newline>Right:\<newline>- The attention mechanism of the study reaches a BLEU score of 85.3% ##1$$, 12.7 points above the traditional method.\<newline>- The experiments of ##2$$ show an accuracy of 91.2% for multimodal fusion in visual question answering, at about 30% more inference time.\<newline>- Three technical routes each show their strengths ##1$$ ##2$$ ##3$$.\<newline>\<newline>Wrong:\<newline>- Multimodal AI is an important research direction. (no citation)\<newline>- Paper [1] points out... (wrong citation format)\<newline>- According to the study of paper 1... (wrong citation format)\<newline>\<newline>Generate the review strictly in the format above.\<newline>''"

text \<open>
  \<open>_build_survey_prompt_from_summaries\<close>: brief \<open>i\<close> (from 1, in the order of the list) is
  shown with the first 2000 characters of its text, and the citation token \<open>##i$$\<close> is bound
  to its title.
\<close>

definition build_survey_prompt_from_summaries :: "paper_summary list \<Rightarrow> string" where
  "build_survey_prompt_from_summaries paper_summaries =
     (let summaries_info =
            map (\<lambda>(i, summary_info).
                   zh_brief_1 @ str_nat i @ zh_brief_2 @ ps_title summary_info @ zh_brief_3
                     @ take 2000 (ps_summary summary_info) @ zh_brief_4)
              (enumerate 1 paper_summaries);
          titles = map ps_title paper_summaries;
          summaries_detail = join ''\<newline>'' summaries_info;
          n = str_nat (length paper_summaries)
      in zh_survey_1 @ n @ zh_survey_2 @ summaries_detail @ zh_survey_3 @ n @ zh_survey_4 @ n
           @ zh_survey_5
           @ join ''\<newline>''
               (map (\<lambda>(i, title). ''##'' @ str_nat (i + 1) @ ''$$ - '' @ title)
                  (enumerate 0 titles))
           @ zh_survey_6)"

text \<open>The first loop of \<open>generate_survey\<close>: a paper without full content gets the content
  of its document when that is not empty.\<close>

definition with_full_content :: "env \<Rightarrow> string \<Rightarrow> paper \<Rightarrow> paper" where
  "with_full_content env tenant_id p =
     (if get_or (p_full_content p) '''' = ''''
      then (let full_content =
                  get_full_document_content env (get_or (p_doc_id p) '''') tenant_id
                    [get_or (p_kb_id p) '''']
            in if full_content \<noteq> '''' then p\<lparr>p_full_content := Some full_content\<rparr> else p)
      else p)"

text \<open>The second loop of \<open>generate_survey\<close>: one brief per paper, in the order of the
  list. Its only effect besides the briefs is a log line per paper.\<close>

fun summarize_papers ::
  "env \<Rightarrow> string \<Rightarrow> paper list \<Rightarrow> world \<Rightarrow> paper_summary list \<times> world" where
  "summarize_papers env tenant_id [] w = ([], w)"
| "summarize_papers env tenant_id (p # ps) w =
     (let (summary, w1) = generate_paper_summary env p tenant_id w;
          (rest, w2) = summarize_papers env tenant_id ps w1
      in (\<lparr>ps_title = get_or (p_title p) zh_unknown_title, ps_summary = summary\<rparr> # rest, w2))"

text \<open>The body of the \<open>try\<close> of \<open>generate_survey\<close> up to and including the synthesis call.
  It reads and writes no table.\<close>

definition survey_body :: "env \<Rightarrow> survey \<Rightarrow> paper list \<Rightarrow> world \<Rightarrow> (exn + string) \<times> world" where
  "survey_body env survey_record papers w =
     (let tenant_id = sv_tenant_id survey_record;
          updated_papers = map (with_full_content env tenant_id) papers;
          (paper_summaries, w1) = summarize_papers env tenant_id updated_papers w;
          survey_prompt = build_survey_prompt_from_summaries paper_summaries;
          call = \<lparr>lc_tenant = tenant_id, lc_system = '''', lc_user = survey_prompt,
                  lc_temperature = 0.7, lc_max_tokens = 2048\<rparr>
      in do_chat env call w1)"

record survey_result =
  r_survey_id :: string
  r_survey_content :: string
  r_status :: string

text \<open>
  \<open>generate_survey(survey_record, papers)\<close>. The insert stands before the \<open>try\<close>, so its
  exception leaves the function at once. The \<open>try\<close> body ends with one of two writes:
  content and status \<open>completed\<close>, or, in the handler of any exception, status \<open>failed\<close>,
  after which the exception is raised again.

  The row is shared with the request handlers (\<open>cancel_survey\<close>, \<open>delete_survey_record\<close>),
  which run while the call waits for the model. Between its insert and its final write the
  function neither reads nor writes a table, so the requests that are served in between act
  as one transformation of the world before the final write: the argument \<open>interleaved\<close>.
  With \<open>interleaved = id\<close> no request is served in between.
\<close>

definition generate_survey ::
  "env \<Rightarrow> (world \<Rightarrow> world) \<Rightarrow> survey \<Rightarrow> paper list \<Rightarrow> world \<Rightarrow> (exn + survey_result) \<times> world" where
  "generate_survey env interleaved survey_record papers w =
     (case create_survey survey_record w of
        Inl e \<Rightarrow> (Inl e, w)
      | Inr w1 \<Rightarrow>
          (let (outcome, w2) = survey_body env survey_record papers w1;
               w3 = interleaved w2
           in case outcome of
                Inr survey_content \<Rightarrow>
                  (Inr \<lparr>r_survey_id = sv_id survey_record, r_survey_content = survey_content,
                        r_status = ''completed''\<rparr>,
                   update_survey (sv_id survey_record)
                     (\<lambda>r. r\<lparr>sv_survey_content := survey_content, sv_status := ''completed''\<rparr>) w3)
              | Inl e \<Rightarrow>
                  (Inl e,
                   update_survey (sv_id survey_record) (\<lambda>r. r\<lparr>sv_status := ''failed''\<rparr>) w3)))"

section \<open>Submission to the queue\<close>

definition zh_task_created :: string where
  "zh_task_created = '' task created, waiting to be processed''"

definition zh_waiting :: string where
  "zh_waiting = ''Waiting to be processed''"

definition zh_redis_unreachable :: string where
  "zh_redis_unreachable = ''Cannot reach Redis, please check the state of Redis''"

text \<open>
  \<open>queue_survey_task(survey_record, papers, priority)\<close>. The id of the task is the value
  that \<open>get_uuid()\<close> returns, an argument here. \<open>bulk_insert_into_db(Task, [task], True)\<close>
  (\<open>api/db/db_utils.py\<close>, not among the sources) stores the row, replacing a row of the same
  id. \<open>REDIS_CONN.queue_product\<close> answers whether the message was queued; when it was, the
  message is at the end of the queue.
\<close>

definition queue_survey_task ::
  "env \<Rightarrow> string \<Rightarrow> survey \<Rightarrow> paper list \<Rightarrow> int \<Rightarrow> world \<Rightarrow> (exn + string) \<times> world" where
  "queue_survey_task env task_uuid survey_record papers priority w =
     (let new_task =
            \<lparr>t_id = task_uuid, t_doc_id = sv_id survey_record, t_from_page = 0,
             t_to_page = length papers, t_task_type = ''paper_survey'', t_priority = priority,
             t_progress = 0,
             t_progress_msg = strftime env ''%H:%M:%S'' (clock_now env) @ zh_task_created,
             t_begin_at = clock_now env\<rparr>;
          w1 = w\<lparr>tasks := (tasks w)(task_uuid \<mapsto> new_task)\<rparr>;
          w2 = update_survey (sv_id survey_record)
                 (\<lambda>r. r\<lparr>sv_task_id := Some task_uuid, sv_status := ''pending'', sv_progress := 0,
                         sv_progress_msg := zh_waiting,
                         sv_process_begin_at := Some (clock_now env)\<rparr>) w1;
          task_message =
            \<lparr>tm_task = new_task, tm_survey_record = survey_record, tm_papers = papers,
             tm_tenant_id = sv_tenant_id survey_record\<rparr>;
          queue_name = get_svr_queue_name env priority;
          success = queue_product env queue_name task_message
      in if \<not> success then (Inl (Failure zh_redis_unreachable), w2)
         else (Inr task_uuid, w2\<lparr>redis_queue := redis_queue w2 @ [(queue_name, task_message)]\<rparr>))"

section \<open>The service's reads and deletes\<close>

text \<open>The dictionary that \<open>get_survey\<close> returns (without \<open>created_at\<close>).\<close>

record survey_view =
  v_id :: string
  v_tenant_id :: string
  v_user_id :: string
  v_search_record_id :: string
  v_survey_content :: string
  v_survey_title :: string
  v_status :: string

text \<open>\<open>PaperSearchService.get_survey(survey_id)\<close>: the row is looked up by id alone;
  \<open>None\<close> on any exception.\<close>

definition get_survey :: "string \<Rightarrow> world \<Rightarrow> survey_view option" where
  "get_survey survey_id w =
     (case get_survey_where survey_id (\<lambda>r. True) w of
        Inl e \<Rightarrow> None
      | Inr sv \<Rightarrow>
          Some \<lparr>v_id = sv_id sv, v_tenant_id = sv_tenant_id sv, v_user_id = sv_user_id sv,
                v_search_record_id = sv_search_record_id sv,
                v_survey_content = sv_survey_content sv, v_survey_title = sv_survey_title sv,
                v_status = sv_status sv\<rparr>)"

text \<open>
  \<open>PaperSearchService.delete_survey_record(survey_id, user_id, tenant_id)\<close>: the row is
  looked up by id, user and tenant; \<open>delete_instance()\<close> removes it; \<open>False\<close> on any
  exception.
\<close>

definition delete_survey_record :: "string \<Rightarrow> string \<Rightarrow> string \<Rightarrow> world \<Rightarrow> bool \<times> world" where
  "delete_survey_record survey_id user_id tenant_id w =
     (case get_survey_where survey_id
             (\<lambda>r. sv_user_id r = user_id \<and> sv_tenant_id r = tenant_id) w of
        Inl e \<Rightarrow> (False, w)
      | Inr sv \<Rightarrow> (True, w\<lparr>surveys := (surveys w)(survey_id := None)\<rparr>))"

section \<open>Request handlers\<close>

text \<open>
  What a handler answers: \<open>get_json_result(data=...)\<close>, \<open>get_data_error_result(message=...)\<close>
  or \<open>server_error_response(e)\<close>. The logged-in user \<open>current_user.id\<close> is an argument.
\<close>

datatype 'a response = JsonResult 'a | DataError string | ServerError exn

definition zh_no_tenant :: string where
  "zh_no_tenant = ''The user is not associated with any tenant''"

definition zh_not_found_or_forbidden :: string where
  "zh_not_found_or_forbidden = ''The survey does not exist or you have no permission to access it''"

definition zh_delete_failed :: string where
  "zh_delete_failed = ''Delete failed or no permission to delete''"

definition zh_cancelled :: string where
  "zh_cancelled = ''Task cancelled''"

definition zh_status_is :: string where
  "zh_status_is = ''The status of the task is ''"

definition zh_cannot_cancel :: string where
  "zh_cannot_cancel = '', it cannot be cancelled''"

definition zh_default_title :: string where
  "zh_default_title = ''Literature survey''"

definition zh_submitted :: string where
  "zh_submitted = ''The survey task was submitted and is being processed''"

text \<open>The tenant of the user: the first tenant the user owns, else the first one the user
  has joined.\<close>

definition user_tenant :: "env \<Rightarrow> string \<Rightarrow> string option" where
  "user_tenant env user_id =
     (case tenant_get_info_by env user_id of
        t # ts \<Rightarrow> Some t
      | [] \<Rightarrow> (case get_tenants_by_user_id env user_id of
                 t # ts \<Rightarrow> Some t
               | [] \<Rightarrow> None))"


record submit_reply =
  sub_survey_id :: string
  sub_task_id :: string
  sub_status :: string
  sub_progress :: real
  sub_message :: string

text \<open>
  The handler \<open>paper_survey\<close> (\<open>POST /paper_survey\<close>): the record is created with status
  \<open>pending\<close>, then the task is queued; any exception becomes \<open>server_error_response\<close>.
  The two \<open>get_uuid()\<close> values are arguments; \<open>title\<close> is the optional entry of the
  request.
\<close>

definition paper_survey ::
  "env \<Rightarrow> string \<Rightarrow> string \<Rightarrow> string \<Rightarrow> string \<Rightarrow> paper list \<Rightarrow> string option \<Rightarrow> world
     \<Rightarrow> submit_reply response \<times> world" where
  "paper_survey env current_user survey_uuid task_uuid search_record_id papers title w =
     (case user_tenant env current_user of
        None \<Rightarrow> (DataError zh_no_tenant, w)
      | Some tenant_id \<Rightarrow>
          (let survey_record =
                 \<lparr>sv_id = survey_uuid, sv_tenant_id = tenant_id, sv_user_id = current_user,
                  sv_search_record_id = search_record_id, sv_survey_content = '''',
                  sv_survey_title = get_or title zh_default_title, sv_status = ''pending'',
                  sv_progress = 0, sv_progress_msg = zh_waiting, sv_task_id = None,
                  sv_process_begin_at = None, sv_updated_at = None\<rparr>
           in case create_survey survey_record w of
                Inl e \<Rightarrow> (ServerError e, w)
              | Inr w1 \<Rightarrow>
                  (case queue_survey_task env task_uuid survey_record papers 0 w1 of
                     (Inl e, w2) \<Rightarrow> (ServerError e, w2)
                   | (Inr task_id, w2) \<Rightarrow>
                       (JsonResult
                          \<lparr>sub_survey_id = survey_uuid, sub_task_id = task_id,
                           sub_status = ''pending'', sub_progress = 0,
                           sub_message = zh_submitted\<rparr>, w2))))"

text \<open>The handler \<open>get_survey\<close> (\<open>GET /paper_survey/<survey_id>\<close>).\<close>

definition get_survey_handler :: "string \<Rightarrow> string \<Rightarrow> world \<Rightarrow> survey_view response" where
  "get_survey_handler current_user survey_id w =
     (case get_survey survey_id w of
        Some result \<Rightarrow> JsonResult result
      | None \<Rightarrow> DataError zh_not_found_or_forbidden)"

text \<open>
  The lookup of the handlers \<open>get_survey_progress\<close> and \<open>cancel_survey\<close>:
  \<open>PaperSurveyRecord.get((PaperSurveyRecord.id == survey_id) &
  (PaperSurveyRecord.user_id == current_user.id))\<close>.
\<close>

definition get_own_survey :: "string \<Rightarrow> string \<Rightarrow> world \<Rightarrow> exn + survey" where
  "get_own_survey current_user survey_id w =
     get_survey_where survey_id (\<lambda>r. sv_user_id r = current_user) w"

text \<open>
  The handler \<open>cancel_survey\<close> (\<open>POST /paper_survey/<survey_id>/cancel\<close>).
  \<open>TaskService.update_progress\<close> (not among the sources) is taken to store the two fields in
  the task's row.
\<close>

definition cancel_survey :: "env \<Rightarrow> string \<Rightarrow> string \<Rightarrow> world \<Rightarrow> string response \<times> world" where
  "cancel_survey env current_user survey_id w =
     (case get_own_survey current_user survey_id w of
        Inl e \<Rightarrow> (DataError zh_not_found_or_forbidden, w)
      | Inr sv \<Rightarrow>
          (if sv_status sv \<notin> set [''pending'', ''processing'']
           then (DataError (zh_status_is @ sv_status sv @ zh_cannot_cancel), w)
           else
             (let w1 = (case sv_task_id sv of
                          None \<Rightarrow> w
                        | Some tid \<Rightarrow>
                            (case (if tid = [] then None else tasks w tid) of
                               None \<Rightarrow> w
                             | Some t \<Rightarrow>
                                 w\<lparr>tasks := (tasks w)(tid \<mapsto>
                                      t\<lparr>t_progress := - 1, t_progress_msg := zh_cancelled\<rparr>)\<rparr>));
                  w2 = update_survey survey_id
                         (\<lambda>r. r\<lparr>sv_status := ''cancelled'', sv_progress := - 1,
                                 sv_progress_msg := zh_cancelled,
                                 sv_updated_at := Some (clock_now env)\<rparr>) w1
              in (JsonResult zh_cancelled, w2))))"

text \<open>The handler \<open>delete_survey_record\<close> (\<open>DELETE /paper_survey_record/<survey_id>\<close>).\<close>

definition delete_survey_record_handler ::
  "env \<Rightarrow> string \<Rightarrow> string \<Rightarrow> world \<Rightarrow> bool response \<times> world" where
  "delete_survey_record_handler env current_user survey_id w =
     (case user_tenant env current_user of
        None \<Rightarrow> (DataError zh_no_tenant, w)
      | Some tenant_id \<Rightarrow>
          (case delete_survey_record survey_id current_user tenant_id w of
             (True, w1) \<Rightarrow> (JsonResult True, w1)
           | (False, w1) \<Rightarrow> (DataError zh_delete_failed, w1)))"

section \<open>The Word document\<close>

text \<open>
  The characters that \<open>\d\<close> matches and \<open>int\<close> reads are the decimal digits of Unicode
  (14.0): 66 runs of ten consecutive code points with the values 0 to 9, given by the
  code point of their zero. The whitespace that \<open>strip()\<close> removes is the set for which
  \<open>str.isspace\<close> holds.
\<close>

definition digit_zeros :: "nat list" where
  "digit_zeros =
     [48, 1632, 1776, 1984, 2406, 2534, 2662, 2790, 2918, 3046, 3174, 3302, 3430, 3558, 3664,
      3792, 3872, 4160, 4240, 6112, 6160, 6470, 6608, 6784, 6800, 6992, 7088, 7232, 7248,
      42528, 43216, 43264, 43472, 43504, 43600, 44016, 65296, 66720, 68912, 69734, 69872,
      69942, 70096, 70384, 70736, 70864, 71248, 71360, 71472, 71904, 72016, 72784, 73040,
      73120, 92768, 92864, 93008, 120782, 120792, 120802, 120812, 120822, 123200, 123632,
      125264, 130032]"

definition is_udigit :: "nat \<Rightarrow> bool" where
  "is_udigit c = list_ex (\<lambda>z. z \<le> c \<and> c < z + 10) digit_zeros"

definition udigit_value :: "nat \<Rightarrow> nat" where
  "udigit_value c =
     (case filter (\<lambda>z. z \<le> c \<and> c < z + 10) digit_zeros of
        [] \<Rightarrow> 0
      | z # zs \<Rightarrow> c - z)"

definition is_uspace :: "nat \<Rightarrow> bool" where
  "is_uspace c =
     (c \<in> set [9, 10, 11, 12, 13, 28, 29, 30, 31, 32, 133, 160, 5760, 8192, 8193, 8194, 8195,
                8196, 8197, 8198, 8199, 8200, 8201, 8202, 8232, 8233, 8239, 8287, 12288])"

text \<open>
  A match of the pattern \<open>##(\d+)\$\$\<close> at the start of the text: its digits. The match
  is then \<open>length digits + 4\<close> characters long. (\<open>#\<close> is 35, \<open>$\<close> is 36.)
\<close>

definition match_citation :: "ustr \<Rightarrow> ustr option" where
  "match_citation s =
     (if take 2 s = [35, 35]
      then (let ds = takeWhile is_udigit (drop 2 s)
            in if ds \<noteq> [] \<and> take 2 (drop (2 + length ds) s) = [36, 36] then Some ds else None)
      else None)"

text \<open>\<open>citation_pattern.finditer(content)\<close>: the matches from left to right, none
  overlapping another.\<close>

fun find_citations :: "ustr \<Rightarrow> ustr list" where
  "find_citations [] = []"
| "find_citations (c # cs) =
     (case match_citation (c # cs) of
        Some ds \<Rightarrow> ds # find_citations (drop (length ds + 3) cs)
      | None \<Rightarrow> find_citations cs)"

text \<open>\<open>int(match.group(1))\<close>, which raises \<open>ValueError\<close> on more than 4300 digits (the
  interpreter's limit on the conversion of digit strings).\<close>

definition int_of_digits :: "ustr \<Rightarrow> exn + nat" where
  "int_of_digits ds =
     (if length ds > 4300 then Inl ValueError
      else Inr (foldl (\<lambda>a d. 10 * a + udigit_value d) 0 ds))"

text \<open>The loop that fills the set \<open>cited_indices\<close>; the first conversion that raises ends
  it.\<close>

fun cited_indices :: "ustr list \<Rightarrow> exn + nat list" where
  "cited_indices [] = Inr []"
| "cited_indices (ds # rest) =
     (case int_of_digits ds of
        Inl e \<Rightarrow> Inl e
      | Inr n \<Rightarrow> (case cited_indices rest of Inl e \<Rightarrow> Inl e | Inr ns \<Rightarrow> Inr (n # ns)))"

text \<open>
  \<open>_add_paragraph_with_citations(para, text)\<close>: the text before each match as a plain run
  (when not empty), the match as a superscript blue run \<open>[n]\<close>, and the rest of the text.
  \<open>pending\<close> is the text since the last match. (\<open>[\<close> is 91, \<open>]\<close> is 93.)
\<close>

fun citation_runs :: "ustr \<Rightarrow> ustr \<Rightarrow> run list" where
  "citation_runs pending [] = (if pending = [] then [] else [Run pending])"
| "citation_runs pending (c # cs) =
     (case match_citation (c # cs) of
        Some ds \<Rightarrow>
          (if pending = [] then [] else [Run pending])
            @ CitationRun ([91] @ ds @ [93]) # citation_runs [] (drop (length ds + 3) cs)
      | None \<Rightarrow> citation_runs (pending @ [c]) cs)"

text \<open>One line of the content, already stripped and not empty: a heading for a line that
  starts with \<open># \<close>, \<open>## \<close> or \<open>### \<close>, a bullet for \<open>- \<close> (\<open>-\<close> is 45, the space 32), a
  paragraph with its citations otherwise.\<close>

definition line_block :: "ustr \<Rightarrow> block" where
  "line_block line =
     (if take 2 line = [35, 32] then Heading (drop 2 line) 1
      else if take 3 line = [35, 35, 32] then Heading (drop 3 line) 2
      else if take 4 line = [35, 35, 35, 32] then Heading (drop 4 line) 3
      else if take 2 line = [45, 32] then StyledParagraph (drop 2 line) ''List Bullet''
      else RunParagraph None (citation_runs [] line))"

text \<open>The Chinese literals of the function, by their code points: the label of the time
  stamp (with its colon and space), the heading of the reference list, the title of a
  paper without one, and the character of the rule.\<close>

definition generated_at_label :: ustr where
  "generated_at_label = [29983, 25104, 26102, 38388, 58, 32]"

definition references_heading :: ustr where
  "references_heading = [21442, 32771, 25991, 29486]"

definition unknown_title_label :: ustr where
  "unknown_title_label = [26410, 30693, 26631, 39064]"

definition rule_line :: ustr where
  "rule_line = replicate 50 9472"

definition time_stamp :: "env \<Rightarrow> ustr" where
  "time_stamp env = ustr_of (strftime env ''%Y-%m-%d %H:%M:%S'' (clock_now env))"

text \<open>
  The body of the \<open>try\<close> of \<open>_generate_word_document\<close> up to \<open>doc.save\<close>: the blocks added
  to the document, in order, or the exception of a conversion. Lines are split at the
  newline (10). The reference list has one entry per cited number that is the number of a
  paper, in increasing order.
\<close>

definition document_blocks :: "env \<Rightarrow> ustr \<Rightarrow> ustr \<Rightarrow> paper list \<Rightarrow> exn + block list" where
  "document_blocks env content title papers =
     (case cited_indices (find_citations content) of
        Inl e \<Rightarrow> Inl e
      | Inr cited \<Rightarrow>
          (let body = map line_block
                        (filter (\<lambda>line. line \<noteq> [])
                           (map (strip_chars is_uspace) (split_on 10 content)));
               refs =
                 (if papers \<noteq> [] \<and> cited \<noteq> []
                  then [Paragraph [], Paragraph rule_line, Paragraph [],
                        Heading references_heading 2]
                         @ concat
                             (map (\<lambda>idx.
                                     if 1 \<le> idx \<and> idx - 1 < length papers
                                     then [RunParagraph (Some ''List Number'')
                                             [BoldRun (ustr_of (''['' @ str_nat idx @ ''] '')),
                                              Run (case p_title (papers ! (idx - 1)) of
                                                     Some t \<Rightarrow> ustr_of t
                                                   | None \<Rightarrow> unknown_title_label)]]
                                     else [])
                                (sort (remdups cited)))
                  else [])
           in Inr ([CenteredHeading title 0,
                    CenteredParagraph (generated_at_label @ time_stamp env),
                    Paragraph []]
                     @ body @ refs)))"

text \<open>The whole \<open>try\<close> block: the blocks are built and the library saves them. Every call
  into the library stands inside it, so \<open>docx_save\<close> answers with the bytes of the saved
  document or with the exception that one of these calls raised.\<close>

definition word_document_try :: "env \<Rightarrow> ustr \<Rightarrow> ustr \<Rightarrow> paper list \<Rightarrow> exn + bytes" where
  "word_document_try env content title papers =
     (case document_blocks env content title papers of
        Inl e \<Rightarrow> Inl e
      | Inr blocks \<Rightarrow> docx_save env blocks)"

text \<open>
  \<open>str.encode("utf-8")\<close>: one to four bytes per code point; a lone surrogate has no
  encoding and raises \<open>UnicodeEncodeError\<close> (as does, here, a number that is no code point
  at all).
\<close>

definition utf8_char :: "nat \<Rightarrow> bytes option" where
  "utf8_char c =
     (if c < 128 then Some [c]
      else if c < 2048 then Some [192 + c div 64, 128 + c mod 64]
      else if 55296 \<le> c \<and> c \<le> 57343 then None
      else if c < 65536 then Some [224 + c div 4096, 128 + (c div 64) mod 64, 128 + c mod 64]
      else if c < 1114112
        then Some [240 + c div 262144, 128 + (c div 4096) mod 64, 128 + (c div 64) mod 64,
                   128 + c mod 64]
      else None)"

fun utf8_encode :: "ustr \<Rightarrow> exn + bytes" where
  "utf8_encode [] = Inr []"
| "utf8_encode (c # cs) =
     (case utf8_char c of
        None \<Rightarrow> Inl UnicodeEncodeError
      | Some bs \<Rightarrow> (case utf8_encode cs of Inl e \<Rightarrow> Inl e | Inr rest \<Rightarrow> Inr (bs @ rest)))"

text \<open>The code points that have an encoding, and the bytes of a text of such code
  points.\<close>

definition encodable :: "nat \<Rightarrow> bool" where
  "encodable c = (c < 55296 \<or> (57343 < c \<and> c < 1114112))"

definition utf8_bytes :: "ustr \<Rightarrow> bytes" where
  "utf8_bytes s = concat (map (\<lambda>c. case utf8_char c of Some bs \<Rightarrow> bs | None \<Rightarrow> []) s)"

text \<open>
  \<open>_generate_word_document(content, title, papers)\<close>. The \<open>except\<close> branch encodes the
  plain text made of the title, two newlines, the content, two newlines, the label and
  the time stamp; the \<open>encode\<close> stands outside every \<open>try\<close>, so its exception leaves the
  function. The branch reads the clock again; \<open>clock_now\<close> is the one reading of the call.
\<close>

definition generate_word_document :: "env \<Rightarrow> ustr \<Rightarrow> ustr \<Rightarrow> paper list \<Rightarrow> exn + bytes" where
  "generate_word_document env content title papers =
     (case word_document_try env content title papers of
        Inr file_bytes \<Rightarrow> Inr file_bytes
      | Inl e \<Rightarrow>
          utf8_encode
            (title @ [10, 10] @ content @ [10, 10] @ generated_at_label @ time_stamp env))"

section \<open>A concrete environment and world\<close>

text \<open>Two answers of the chat model and what \<open>json.loads\<close> makes of them: an object with
  two keyword lists, and an object whose \<open>keyword_en\<close> is \<open>null\<close>. The only other text
  that the runs below decode is the answer \<open>text\<close> of \<open>env0\<close>, which is no JSON.\<close>

definition kw_answer :: string where
  \<open>kw_answer = ''{"keyword_en": ["deep learning"], "searchquery_en": ["deep learning survey"]}''\<close>

definition kw_object :: json where
  "kw_object = JObj [(''keyword_en'', JList [JStr ''deep learning'']),
                     (''searchquery_en'', JList [JStr ''deep learning survey''])]"

definition null_answer :: string where
  \<open>null_answer = ''{"keyword_en": null}''\<close>

definition null_object :: json where
  "null_object = JObj [(''keyword_en'', JNull)]"

definition env0 :: env where
  "env0 =
     \<lparr>llm_chat = (\<lambda>c. Inr ''text''),
      json_loads = (\<lambda>s. if s = kw_answer then Some kw_object
                         else if s = null_answer then Some null_object else None),
      chunk_list = (\<lambda>d t ks. Inr []),
      kb_query_tenant = (\<lambda>t. Inr []),
      kb_query_public = Inr [],
      search_update_error = (\<lambda>n. None),
      embedding_model = (\<lambda>t n. Inr n),
      retrieval = (\<lambda>q. Inr []),
      document_get_by_id = (\<lambda>d. Inr None),
      json_dumps_keywords = (\<lambda>k. ''keywords''),
      json_dumps_papers = (\<lambda>ps. str_nat (length ps)),
      queue_product = (\<lambda>q m. True),
      get_svr_queue_name = (\<lambda>p. ''queue_'' @ str_int p),
      clock_now = 1000,
      strftime = (\<lambda>f t. ''2025-01-01 12:00:00''),
      tenant_get_info_by = (\<lambda>u. if u = ''u1'' then [''t1''] else [''t2'']),
      get_tenants_by_user_id = (\<lambda>u. []),
      docx_save = (\<lambda>bs. Inr [80, 75])\<rparr>"

text \<open>The chat model is unreachable; Redis refuses every push; the document library
  raises.\<close>

definition env_llm_down :: env where
  "env_llm_down = env0\<lparr>llm_chat := (\<lambda>c. Inl (Failure ''model backend unreachable''))\<rparr>"

definition env_redis_down :: env where
  "env_redis_down = env0\<lparr>queue_product := (\<lambda>q m. False)\<rparr>"

definition env_docx_down :: env where
  "env_docx_down = env0\<lparr>docx_save := (\<lambda>bs. Inl ValueError)\<rparr>"





definition world0 :: world where
  "world0 = \<lparr>surveys = Map.empty, tasks = Map.empty, searches = Map.empty,
              redis_queue = [], llm_calls = []\<rparr>"

definition paper1 :: paper where
  "paper1 = \<lparr>p_uid = Some ''d1'', p_title = Some ''P1'', p_abstract = Some ''About P1'',
              p_source = None, p_selected = None, p_similarity = None,
              p_doc_id = Some ''d1'', p_kb_id = Some ''kb1'', p_full_content = None\<rparr>"

text \<open>The record that \<open>paper_survey\<close> builds for user \<open>u1\<close> of tenant \<open>t1\<close>.\<close>

definition survey1 :: survey where
  "survey1 = \<lparr>sv_id = ''s1'', sv_tenant_id = ''t1'', sv_user_id = ''u1'',
               sv_search_record_id = ''q1'', sv_survey_content = '''',
               sv_survey_title = ''Survey'', sv_status = ''pending'', sv_progress = 0,
               sv_progress_msg = zh_waiting, sv_task_id = None, sv_process_begin_at = None,
               sv_updated_at = None\<rparr>"

text \<open>Worlds in which the job \<open>s1\<close> is persisted as pending, completed and processing.\<close>

definition world_pending :: world where
  "world_pending = world0\<lparr>surveys := [''s1'' \<mapsto> survey1]\<rparr>"

definition world_completed :: world where
  "world_completed =
     world0\<lparr>surveys := [''s1'' \<mapsto> survey1\<lparr>sv_survey_content := ''The survey'',
                                             sv_status := ''completed''\<rparr>]\<rparr>"

definition world_processing :: world where
  "world_processing = world0\<lparr>surveys := [''s1'' \<mapsto> survey1\<lparr>sv_status := ''processing''\<rparr>]\<rparr>"

text \<open>The owner's cancel request, as a transformation of the world.\<close>

definition cancel_by_owner :: "world \<Rightarrow> world" where
  "cancel_by_owner w = snd (cancel_survey env0 ''u1'' ''s1'' w)"



section \<open>Properties of keyword extraction\<close>

lemma extract_keywords_calls:
  "llm_calls (snd (extract_keywords env question tenant_id k n w)) =
     llm_calls w @
       [\<lparr>lc_tenant = tenant_id,
         lc_system = keyword_prompt (if 12 \<ge> k \<and> k > 1 then k else 5)
                       (if n \<noteq> 0 then n else (if 12 \<ge> k \<and> k > 1 then k else 5)),
         lc_user = question, lc_temperature = 0.6, lc_max_tokens = 512\<rparr>]"
  by (simp add: extract_keywords_def do_chat_def Let_def split: sum.splits prod.splits)

text \<open>
  Claim C9. For every keyword count \<open>k\<close> with \<open>1 < k \<le> 12\<close>, the prompt that
  \<open>extract_keywords\<close> builds and sends to the model asks for exactly \<open>k\<close> keywords (both
  \<open>{keywords_num}\<close> slots hold \<open>k\<close>); for every \<open>k\<close> outside that range the slots hold the
  default 5. The model is asked exactly once.
\<close>

theorem extract_keywords_count:
  "(1 < k \<and> k \<le> 12 \<longrightarrow>
      map lc_system (llm_calls (snd (extract_keywords env question tenant_id k n w))) =
        map lc_system (llm_calls w) @
          [zh_kw_1 @ str_int k @ zh_kw_2 @ str_int k @ zh_kw_3
             @ str_int (if n \<noteq> 0 then n else k) @ zh_kw_4]) \<and>
   (k \<le> 1 \<or> 12 < k \<longrightarrow>
      map lc_system (llm_calls (snd (extract_keywords env question tenant_id k n w))) =
        map lc_system (llm_calls w) @
          [zh_kw_1 @ str_int 5 @ zh_kw_2 @ str_int 5 @ zh_kw_3
             @ str_int (if n \<noteq> 0 then n else 5) @ zh_kw_4])"
proof (intro conjI impI)
  assume "1 < k \<and> k \<le> 12"
  then show "map lc_system (llm_calls (snd (extract_keywords env question tenant_id k n w))) =
        map lc_system (llm_calls w) @
          [zh_kw_1 @ str_int k @ zh_kw_2 @ str_int k @ zh_kw_3
             @ str_int (if n \<noteq> 0 then n else k) @ zh_kw_4]"
    by (simp add: extract_keywords_calls keyword_prompt_def)
next
  assume "k \<le> 1 \<or> 12 < k"
  then have "(if 12 \<ge> k \<and> k > 1 then k else 5) = 5" by auto
  then show "map lc_system (llm_calls (snd (extract_keywords env question tenant_id k n w))) =
        map lc_system (llm_calls w) @
          [zh_kw_1 @ str_int 5 @ zh_kw_2 @ str_int 5 @ zh_kw_3
             @ str_int (if n \<noteq> 0 then n else 5) @ zh_kw_4]"
    by (simp add: extract_keywords_calls keyword_prompt_def)
qed

theorem extract_keywords_count_witness:
  "(1::int) < 7 \<and> (7::int) \<le> 12 \<and>
   map lc_system (llm_calls (snd (extract_keywords env0 ''deep learning'' ''t1'' 7 0 world0))) =
     [zh_kw_1 @ ''7'' @ zh_kw_2 @ ''7'' @ zh_kw_3 @ ''7'' @ zh_kw_4] \<and>
   ((20::int) \<le> 1 \<or> (12::int) < 20) \<and>
   map lc_system (llm_calls (snd (extract_keywords env0 ''deep learning'' ''t1'' 20 3 world0))) =
     [zh_kw_1 @ ''5'' @ zh_kw_2 @ ''5'' @ zh_kw_3 @ ''3'' @ zh_kw_4]"
  using extract_keywords_count [of 7 env0 "''deep learning''" "''t1''" 0 world0]
    extract_keywords_count [of 20 env0 "''deep learning''" "''t1''" 3 world0]
  by (simp add: world0_def str_int_def str_nat.simps)

section \<open>Frame lemmas for survey generation\<close>

text \<open>The briefs and the synthesis call change nothing of the world but the log of model
  calls.\<close>

lemma generate_paper_summary_frame:
  "snd (generate_paper_summary env p t w) =
     w\<lparr>llm_calls := llm_calls (snd (generate_paper_summary env p t w))\<rparr>"
  by (simp add: generate_paper_summary_def do_chat_def Let_def split: sum.splits)

lemma summarize_papers_frame:
  "snd (summarize_papers env t ps w) =
     w\<lparr>llm_calls := llm_calls (snd (summarize_papers env t ps w))\<rparr>"
proof (induction ps arbitrary: w)
  case Nil
  show ?case by simp
next
  case (Cons p ps)
  obtain s w1 where g: "generate_paper_summary env p t w = (s, w1)"
    by (cases "generate_paper_summary env p t w")
  obtain rest w2 where r: "summarize_papers env t ps w1 = (rest, w2)"
    by (cases "summarize_papers env t ps w1")
  have 1: "w1 = w\<lparr>llm_calls := llm_calls w1\<rparr>"
    using generate_paper_summary_frame [of env p t w] g by simp
  have 2: "w2 = w1\<lparr>llm_calls := llm_calls w2\<rparr>"
    using Cons.IH [of w1] r by simp
  have "w2 = w\<lparr>llm_calls := llm_calls w2\<rparr>"
    by (subst 2, subst 1) simp
  then show ?case using g r by simp
qed

lemma summarize_papers_titles:
  "map ps_title (fst (summarize_papers env t ps w)) =
     map (\<lambda>p. get_or (p_title p) zh_unknown_title) ps"
  by (induction ps arbitrary: w) (auto simp: split_beta Let_def)

text \<open>The loop on a list is the loop on a prefix followed by the loop on the rest: the
  world after the \<open>k\<close>-th brief is the world after the loop on the first \<open>k\<close> papers.\<close>

lemma summarize_papers_append:
  "summarize_papers env t (xs @ ys) w =
     (let (a, w1) = summarize_papers env t xs w;
          (b, w2) = summarize_papers env t ys w1
      in (a @ b, w2))"
  by (induction xs arbitrary: w) (auto simp: split_beta Let_def)

lemma survey_body_frame:
  "snd (survey_body env rec papers w) =
     w\<lparr>llm_calls := llm_calls (snd (survey_body env rec papers w))\<rparr>"
proof -
  obtain briefs w1 where s: "summarize_papers env (sv_tenant_id rec)
      (map (with_full_content env (sv_tenant_id rec)) papers) w = (briefs, w1)"
    by (cases "summarize_papers env (sv_tenant_id rec)
      (map (with_full_content env (sv_tenant_id rec)) papers) w")
  have 1: "w1 = w\<lparr>llm_calls := llm_calls w1\<rparr>"
    using summarize_papers_frame [of env "sv_tenant_id rec"
        "map (with_full_content env (sv_tenant_id rec)) papers" w] s by simp
  show ?thesis
    unfolding survey_body_def Let_def s prod.case do_chat_def snd_conv
    by (subst 1) simp
qed

lemma survey_body_surveys:
  "surveys (snd (survey_body env rec papers w)) = surveys w"
  by (subst survey_body_frame) simp

text \<open>The body raises exactly when the synthesis call does.\<close>

lemma survey_body_outcome:
  "\<exists>c. fst (survey_body env rec papers w) = llm_chat env c"
  by (auto simp: survey_body_def Let_def do_chat_def split: prod.splits)

lemma generate_survey_existing:
  "surveys w (sv_id rec) = Some r \<Longrightarrow>
     generate_survey env interleaved rec papers w = (Inl IntegrityError, w)"
  by (simp add: generate_survey_def create_survey_def)

lemma generate_survey_row:
  assumes c: "create_survey rec w = Inr w1"
    and b: "survey_body env rec papers w1 = (outcome, w2)"
    and r: "surveys (interleaved w2) (sv_id rec) = Some r"
  shows "surveys (snd (generate_survey env interleaved rec papers w)) (sv_id rec) =
           Some (case outcome of
                   Inr content \<Rightarrow> r\<lparr>sv_survey_content := content, sv_status := ''completed''\<rparr>
                 | Inl e \<Rightarrow> r\<lparr>sv_status := ''failed''\<rparr>)"
  using c b r by (simp add: generate_survey_def update_survey_def Let_def split: sum.splits)

lemma generate_survey_world:
  assumes c: "create_survey rec w = Inr w1"
  shows "snd (generate_survey env id rec papers w) =
     w\<lparr>surveys := (surveys w)(sv_id rec \<mapsto>
          (case fst (survey_body env rec papers w1) of
             Inr content \<Rightarrow> rec\<lparr>sv_survey_content := content, sv_status := ''completed''\<rparr>
           | Inl e \<Rightarrow> rec\<lparr>sv_status := ''failed''\<rparr>)),
        llm_calls := llm_calls (snd (generate_survey env id rec papers w))\<rparr>"
proof -
  have w1: "w1 = w\<lparr>surveys := (surveys w)(sv_id rec \<mapsto> rec)\<rparr>"
    using c by (simp add: create_survey_def split: option.splits)
  obtain outcome w2 where b: "survey_body env rec papers w1 = (outcome, w2)"
    by (cases "survey_body env rec papers w1")
  have "w2 = w1\<lparr>llm_calls := llm_calls w2\<rparr>"
    using survey_body_frame [of env rec papers w1] b by simp
  then obtain L where W2:
    "w2 = w\<lparr>surveys := (surveys w)(sv_id rec \<mapsto> rec), llm_calls := L\<rparr>"
    unfolding w1 by blast
  show ?thesis
    unfolding generate_survey_def c sum.case b prod.case Let_def fst_conv W2
    by (cases outcome) (simp_all add: update_survey_def)
qed

lemma generate_survey_result:
  assumes c: "create_survey rec w = Inr w1"
  shows "fst (generate_survey env interleaved rec papers w) =
     (case fst (survey_body env rec papers w1) of
        Inr content \<Rightarrow> Inr \<lparr>r_survey_id = sv_id rec, r_survey_content = content,
                            r_status = ''completed''\<rparr>
      | Inl e \<Rightarrow> Inl e)"
  using c by (simp add: generate_survey_def Let_def split_beta split: sum.splits)

lemma cancel_survey_effect:
  assumes "surveys w sid = Some r" and "sv_user_id r = u"
    and "sv_status r = ''pending'' \<or> sv_status r = ''processing''"
  shows "surveys (snd (cancel_survey env u sid w)) sid =
           Some (r\<lparr>sv_status := ''cancelled'', sv_progress := - 1,
                   sv_progress_msg := zh_cancelled, sv_updated_at := Some (clock_now env)\<rparr>)"
  using assms
  by (auto simp: cancel_survey_def get_own_survey_def get_survey_where_def update_survey_def
      Let_def split: option.splits)

text \<open>Facts of the concrete run: the job \<open>s1\<close> is inserted, the owner cancels it while the
  model is being asked, and the model answers (or is unreachable).\<close>

lemma survey1_fields:
  "sv_id survey1 = ''s1''" "sv_user_id survey1 = ''u1''" "sv_status survey1 = ''pending''"
  "sv_survey_content survey1 = ''''" "sv_progress survey1 = 0"
  "sv_progress_msg survey1 = zh_waiting" "sv_tenant_id survey1 = ''t1''"
  by (simp_all add: survey1_def)

lemma create_survey1: "create_survey survey1 world0 = Inr world_pending"
  by (simp add: create_survey_def world0_def world_pending_def survey1_def)

lemma world_pending_row: "surveys world_pending ''s1'' = Some survey1"
  by (simp add: world_pending_def world0_def)

lemma survey_body_env0:
  "survey_body env0 rec papers w = (Inr ''text'', snd (survey_body env0 rec papers w))"
proof -
  obtain c where "fst (survey_body env0 rec papers w) = llm_chat env0 c"
    using survey_body_outcome by blast
  then show ?thesis by (simp add: env0_def prod_eq_iff)
qed

lemma survey_body_env_llm_down:
  "survey_body env_llm_down rec papers w =
     (Inl (Failure ''model backend unreachable''), snd (survey_body env_llm_down rec papers w))"
proof -
  obtain c where "fst (survey_body env_llm_down rec papers w) = llm_chat env_llm_down c"
    using survey_body_outcome by blast
  then show ?thesis by (simp add: env_llm_down_def prod_eq_iff)
qed

lemma cancelled_in_flight:
  "surveys (cancel_by_owner (snd (survey_body env survey1 papers world_pending))) ''s1'' =
     Some (survey1\<lparr>sv_status := ''cancelled'', sv_progress := - 1,
                   sv_progress_msg := zh_cancelled, sv_updated_at := Some (clock_now env0)\<rparr>)"
  unfolding cancel_by_owner_def
  by (rule cancel_survey_effect) (simp_all add: survey_body_surveys world_pending_row survey1_fields)

section \<open>Cancellation and the worker's final write\<close>

text \<open>
  Claim C1, as the code has it. \<open>generate_survey\<close> has no cancellation checkpoint: after its
  insert it reads no status, and its final write sets the status of the record with the
  job's id to \<open>completed\<close> (with the content) when the body succeeded and to \<open>failed\<close> when
  it raised, whatever row \<open>r\<close> is persisted at that moment, a cancelled one included.
\<close>

theorem generate_survey_final_write:
  assumes "create_survey rec w = Inr w1"
    and "survey_body env rec papers w1 = (outcome, w2)"
    and "surveys (interleaved w2) (sv_id rec) = Some r"
  shows "surveys (snd (generate_survey env interleaved rec papers w)) (sv_id rec) =
           Some (case outcome of
                   Inr content \<Rightarrow> r\<lparr>sv_survey_content := content, sv_status := ''completed''\<rparr>
                 | Inl e \<Rightarrow> r\<lparr>sv_status := ''failed''\<rparr>)"
proof (cases outcome)
  case (Inl e)
  with assms show ?thesis
    by (simp add: generate_survey_def update_survey_def Let_def)
next
  case (Inr content)
  with assms show ?thesis
    by (simp add: generate_survey_def update_survey_def Let_def)
qed

theorem generate_survey_final_write_witness:
  "create_survey survey1 world0 = Inr world_pending \<and>
   survey_body env0 survey1 [paper1] world_pending =
     (Inr ''text'', snd (survey_body env0 survey1 [paper1] world_pending)) \<and>
   surveys (cancel_by_owner (snd (survey_body env0 survey1 [paper1] world_pending)))
       (sv_id survey1) =
     Some (survey1\<lparr>sv_status := ''cancelled'', sv_progress := - 1,
                   sv_progress_msg := zh_cancelled, sv_updated_at := Some (clock_now env0)\<rparr>) \<and>
   surveys (snd (generate_survey env0 cancel_by_owner survey1 [paper1] world0)) (sv_id survey1) =
     Some (survey1\<lparr>sv_status := ''completed'', sv_progress := - 1,
                   sv_progress_msg := zh_cancelled, sv_updated_at := Some (clock_now env0),
                   sv_survey_content := ''text''\<rparr>)"
proof -
  have c: "surveys (cancel_by_owner (snd (survey_body env0 survey1 [paper1] world_pending)))
       (sv_id survey1) =
     Some (survey1\<lparr>sv_status := ''cancelled'', sv_progress := - 1,
                   sv_progress_msg := zh_cancelled, sv_updated_at := Some (clock_now env0)\<rparr>)"
    using cancelled_in_flight [of env0 "[paper1]"] by (simp add: survey1_fields)
  have f: "surveys (snd (generate_survey env0 cancel_by_owner survey1 [paper1] world0))
       (sv_id survey1) =
     Some (survey1\<lparr>sv_status := ''completed'', sv_progress := - 1,
                   sv_progress_msg := zh_cancelled, sv_updated_at := Some (clock_now env0),
                   sv_survey_content := ''text''\<rparr>)"
    using generate_survey_final_write
        [where interleaved = cancel_by_owner,
          OF create_survey1 survey_body_env0 [of survey1 "[paper1]" world_pending] c]
    by (simp add: survey1_def)
  show ?thesis
    by (intro conjI) (rule create_survey1, rule survey_body_env0, rule c, rule f)
qed

text \<open>
  The claim as stated fails: the owner cancels the job while the worker waits for the
  model, the persisted status is \<open>cancelled\<close>, and the final write of \<open>generate_survey\<close>
  turns it into \<open>completed\<close> (or into \<open>failed\<close> when the model is unreachable).
\<close>

theorem generate_survey_overwrites_cancelled:
  "map_option sv_status
     (surveys (cancel_by_owner (snd (survey_body env0 survey1 [paper1] world_pending))) ''s1'')
     = Some ''cancelled'' \<and>
   map_option sv_status
     (surveys (snd (generate_survey env0 cancel_by_owner survey1 [paper1] world0)) ''s1'')
     = Some ''completed'' \<and>
   map_option sv_status
     (surveys (snd (generate_survey env_llm_down cancel_by_owner survey1 [paper1] world0)) ''s1'')
     = Some ''failed''"
proof -
  have c: "surveys (cancel_by_owner (snd (survey_body env survey1 [paper1] world_pending)))
       (sv_id survey1) =
     Some (survey1\<lparr>sv_status := ''cancelled'', sv_progress := - 1,
                   sv_progress_msg := zh_cancelled, sv_updated_at := Some (clock_now env0)\<rparr>)"
    for env
    using cancelled_in_flight [of env "[paper1]"] by (simp add: survey1_fields)
  show ?thesis
    using generate_survey_row
        [where interleaved = cancel_by_owner,
          OF create_survey1 survey_body_env0 [of survey1 "[paper1]" world_pending] c [of env0]]
      generate_survey_row
        [where interleaved = cancel_by_owner,
          OF create_survey1 survey_body_env_llm_down [of survey1 "[paper1]" world_pending]
          c [of env_llm_down]]
      c [of env0]
    by (simp add: survey1_fields)
qed

section \<open>Re-delivery of a job whose record exists\<close>

text \<open>
  Claim C2, as the code has it. \<open>generate_survey\<close> does not read the job's status. When a
  record with the job's id is already persisted (completed or in any other status), the
  initial insert raises \<open>IntegrityError\<close>, which leaves the function before the \<open>try\<close>: no
  model call is made and the world (tables, queue and log of model calls) is unchanged.
\<close>

theorem generate_survey_redelivery:
  "surveys w (sv_id rec) = Some r \<Longrightarrow>
     generate_survey env interleaved rec papers w = (Inl IntegrityError, w)"
proof -
  assume "surveys w (sv_id rec) = Some r"
  then have "create_survey rec w = Inl IntegrityError"
    by (simp add: create_survey_def)
  then show ?thesis
    by (simp add: generate_survey_def)
qed

theorem generate_survey_redelivery_witness:
  "surveys world_completed (sv_id survey1) =
     Some (survey1\<lparr>sv_survey_content := ''The survey'', sv_status := ''completed''\<rparr>) \<and>
   generate_survey env0 id survey1 [paper1] world_completed =
     (Inl IntegrityError, world_completed)"
proof -
  have r: "surveys world_completed (sv_id survey1) =
     Some (survey1\<lparr>sv_survey_content := ''The survey'', sv_status := ''completed''\<rparr>)"
    by (simp add: world_completed_def world0_def survey1_fields)
  show ?thesis
    using generate_survey_redelivery [OF r, of env0 id "[paper1]"] r by simp
qed

text \<open>
  The claim as stated fails: the re-delivery is not a no-op that returns, it raises; and
  the answer is the same for a job that is still pending, so no status is checked.
\<close>

theorem generate_survey_redelivery_raises:
  "fst (generate_survey env0 id survey1 [paper1] world_completed) = Inl IntegrityError \<and>
   fst (generate_survey env0 id survey1 [paper1] world_pending) = Inl IntegrityError"
  by (simp add: generate_survey_def create_survey_def world_completed_def world_pending_def
      world0_def survey1_fields)

section \<open>Failure of a job\<close>

text \<open>A submission that succeeds: \<open>paper_survey\<close> persists the record before it queues the
  task, and the queued message carries the record as it was built, with the papers.\<close>

lemma paper_survey_submitted:
  assumes t: "user_tenant env u = Some tenant"
    and fresh: "surveys w sid = None"
    and up: "\<forall>m. queue_product env (get_svr_queue_name env 0) m"
  shows "surveys (snd (paper_survey env u sid tid srid papers title w)) sid =
           Some \<lparr>sv_id = sid, sv_tenant_id = tenant, sv_user_id = u,
                  sv_search_record_id = srid, sv_survey_content = '''',
                  sv_survey_title = get_or title zh_default_title, sv_status = ''pending'',
                  sv_progress = 0,
                  sv_progress_msg = zh_waiting, sv_task_id = Some tid,
                  sv_process_begin_at = Some (clock_now env), sv_updated_at = None\<rparr> \<and>
         map (\<lambda>qm. (tm_survey_record (snd qm), tm_papers (snd qm)))
           (redis_queue (snd (paper_survey env u sid tid srid papers title w))) =
           map (\<lambda>qm. (tm_survey_record (snd qm), tm_papers (snd qm))) (redis_queue w) @
             [(\<lparr>sv_id = sid, sv_tenant_id = tenant, sv_user_id = u,
                 sv_search_record_id = srid, sv_survey_content = '''',
                 sv_survey_title = get_or title zh_default_title, sv_status = ''pending'',
                 sv_progress = 0, sv_progress_msg = zh_waiting, sv_task_id = None,
                 sv_process_begin_at = None, sv_updated_at = None\<rparr>, papers)]"
  using t fresh up
  by (simp add: paper_survey_def create_survey_def Let_def queue_survey_task_def
      update_survey_def)

lemma llm_down_facts:
  "user_tenant env_llm_down ''u1'' = Some ''t1''"
  "surveys world0 ''s1'' = None"
  "\<forall>m. queue_product env_llm_down (get_svr_queue_name env_llm_down 0) m"
  by (simp_all add: user_tenant_def env_llm_down_def env0_def world0_def)

text \<open>
  Claim C4, as the code has it. The handling of a failure covers the body of the \<open>try\<close>
  only. When the initial insert has succeeded and the body then raises (in the model: the
  synthesis call fails), the exception is raised again and the persisted record is the
  submitted record with status \<open>failed\<close>: the content is still empty, and nothing else of
  the world changes but the log of model calls. When the insert itself raises, the
  exception leaves \<open>generate_survey\<close> before the \<open>try\<close>: no status is written and the
  world is unchanged.
\<close>

theorem generate_survey_failure:
  "(create_survey rec w = Inr w1 \<and> fst (survey_body env rec papers w1) = Inl e \<and>
      sv_survey_content rec = '''' \<longrightarrow>
      fst (generate_survey env id rec papers w) = Inl e \<and>
      snd (generate_survey env id rec papers w) =
        w\<lparr>surveys := (surveys w)(sv_id rec \<mapsto> rec\<lparr>sv_status := ''failed''\<rparr>),
          llm_calls := llm_calls (snd (generate_survey env id rec papers w))\<rparr> \<and>
      map_option sv_survey_content
        (surveys (snd (generate_survey env id rec papers w)) (sv_id rec)) = Some '''') \<and>
   (create_survey rec w = Inl e' \<longrightarrow>
      generate_survey env interleaved rec papers w = (Inl e', w))"
proof (intro conjI impI)
  assume a: "create_survey rec w = Inr w1 \<and> fst (survey_body env rec papers w1) = Inl e \<and>
             sv_survey_content rec = ''''"
  then have c: "create_survey rec w = Inr w1"
    and b: "fst (survey_body env rec papers w1) = Inl e"
    and s: "sv_survey_content rec = ''''"
    by simp_all
  show 1: "fst (generate_survey env id rec papers w) = Inl e"
    using generate_survey_result [OF c, of env id papers] b by simp
  show 2: "snd (generate_survey env id rec papers w) =
           w\<lparr>surveys := (surveys w)(sv_id rec \<mapsto> rec\<lparr>sv_status := ''failed''\<rparr>),
             llm_calls := llm_calls (snd (generate_survey env id rec papers w))\<rparr>"
    using generate_survey_world [OF c, of env papers] b by simp
  show "map_option sv_survey_content
           (surveys (snd (generate_survey env id rec papers w)) (sv_id rec)) = Some ''''"
    by (subst 2) (simp add: s)
next
  assume "create_survey rec w = Inl e'"
  then show "generate_survey env interleaved rec papers w = (Inl e', w)"
    by (simp add: generate_survey_def)
qed

theorem generate_survey_failure_witness:
  "create_survey survey1 world0 = Inr world_pending \<and>
   fst (survey_body env_llm_down survey1 [paper1] world_pending) =
     Inl (Failure ''model backend unreachable'') \<and>
   sv_survey_content survey1 = '''' \<and>
   fst (generate_survey env_llm_down id survey1 [paper1] world0) =
     Inl (Failure ''model backend unreachable'') \<and>
   surveys (snd (generate_survey env_llm_down id survey1 [paper1] world0)) =
     [''s1'' \<mapsto> survey1\<lparr>sv_status := ''failed''\<rparr>] \<and>
   map_option sv_survey_content
     (surveys (snd (generate_survey env_llm_down id survey1 [paper1] world0)) ''s1'') = Some '''' \<and>
   create_survey survey1 world_pending = Inl IntegrityError \<and>
   generate_survey env_llm_down id survey1 [paper1] world_pending =
     (Inl IntegrityError, world_pending)"
proof -
  have b: "fst (survey_body env_llm_down survey1 [paper1] world_pending) =
     Inl (Failure ''model backend unreachable'')"
    by (subst survey_body_env_llm_down) simp
  have c: "sv_survey_content survey1 = ''''"
    by (simp add: survey1_fields)
  have d: "create_survey survey1 world_pending = Inl IntegrityError"
    by (simp add: create_survey_def world_pending_row survey1_fields)
  note g = generate_survey_failure
             [of survey1 world0 world_pending env_llm_down "[paper1]"
                 "Failure ''model backend unreachable''" IntegrityError id]
  note h = generate_survey_failure
             [of survey1 world_pending world_pending env_llm_down "[paper1]"
                 "Failure ''model backend unreachable''" IntegrityError id]
  have f: "fst (generate_survey env_llm_down id survey1 [paper1] world0) =
             Inl (Failure ''model backend unreachable'')"
    and f2: "snd (generate_survey env_llm_down id survey1 [paper1] world0) =
        world0\<lparr>surveys := (surveys world0)(sv_id survey1 \<mapsto> survey1\<lparr>sv_status := ''failed''\<rparr>),
          llm_calls := llm_calls (snd (generate_survey env_llm_down id survey1 [paper1] world0))\<rparr>"
    and f3: "map_option sv_survey_content
        (surveys (snd (generate_survey env_llm_down id survey1 [paper1] world0)) (sv_id survey1)) =
          Some ''''"
    using g create_survey1 b c by blast+
  have s: "surveys (snd (generate_survey env_llm_down id survey1 [paper1] world0)) =
     [''s1'' \<mapsto> survey1\<lparr>sv_status := ''failed''\<rparr>]"
    by (subst f2) (simp add: world0_def survey1_fields)
  have k: "generate_survey env_llm_down id survey1 [paper1] world_pending =
             (Inl IntegrityError, world_pending)"
    using h d by blast
  have f4: "map_option sv_survey_content
        (surveys (snd (generate_survey env_llm_down id survey1 [paper1] world0)) ''s1'') =
          Some ''''"
    using f3 by (simp add: survey1_fields)
  show ?thesis
    using create_survey1 b c f s f4 d k by blast
qed

text \<open>
  The claim as stated fails: a job submitted through \<open>paper_survey\<close> has its record
  persisted already, so for the record and the papers of the queued message the insert of
  \<open>generate_survey\<close> raises and the status stays \<open>pending\<close> instead of becoming \<open>failed\<close>.
\<close>

theorem generate_survey_insert_error_unrecorded:
  "map (\<lambda>qm. (tm_survey_record (snd qm), tm_papers (snd qm)))
     (redis_queue (snd (paper_survey env_llm_down ''u1'' ''s1'' ''k1'' ''q1'' [paper1]
                          (Some ''Survey'') world0))) = [(survey1, [paper1])] \<and>
   generate_survey env_llm_down id survey1 [paper1]
     (snd (paper_survey env_llm_down ''u1'' ''s1'' ''k1'' ''q1'' [paper1] (Some ''Survey'') world0)) =
     (Inl IntegrityError,
      snd (paper_survey env_llm_down ''u1'' ''s1'' ''k1'' ''q1'' [paper1] (Some ''Survey'') world0)) \<and>
   map_option sv_status
     (surveys (snd (paper_survey env_llm_down ''u1'' ''s1'' ''k1'' ''q1'' [paper1]
                      (Some ''Survey'') world0)) ''s1'') = Some ''pending''"
proof -
  note p = paper_survey_submitted
             [OF llm_down_facts, of "''k1''" "''q1''" "[paper1]" "Some ''Survey''"]
  have 1: "map (\<lambda>qm. (tm_survey_record (snd qm), tm_papers (snd qm)))
     (redis_queue (snd (paper_survey env_llm_down ''u1'' ''s1'' ''k1'' ''q1'' [paper1]
                          (Some ''Survey'') world0))) = [(survey1, [paper1])]"
    using p by (simp add: world0_def survey1_def get_or_def)
  have 2: "generate_survey env_llm_down id survey1 [paper1]
     (snd (paper_survey env_llm_down ''u1'' ''s1'' ''k1'' ''q1'' [paper1] (Some ''Survey'') world0)) =
     (Inl IntegrityError,
      snd (paper_survey env_llm_down ''u1'' ''s1'' ''k1'' ''q1'' [paper1] (Some ''Survey'') world0))"
    by (rule generate_survey_existing) (simp add: p survey1_fields)
  have 3: "map_option sv_status
     (surveys (snd (paper_survey env_llm_down ''u1'' ''s1'' ''k1'' ''q1'' [paper1]
                      (Some ''Survey'') world0)) ''s1'') = Some ''pending''"
    using p by simp
  show ?thesis using 1 2 3 by blast
qed

section \<open>Progress during survey generation\<close>

text \<open>
  Claim C5, as the code has it. \<open>generate_survey\<close> persists no progress. For every \<open>k\<close>,
  after the \<open>k\<close>-th brief the survey and task tables are what they were before the loop; the
  loop only collects one brief per paper, in the order of the papers, under the paper's
  title; and at the end of \<open>generate_survey\<close> the record still has the progress and the
  progress message it was created with.
\<close>

theorem summaries_persist_no_progress:
  "surveys (snd (summarize_papers env tenant_id (take k ps) w)) = surveys w \<and>
   tasks (snd (summarize_papers env tenant_id (take k ps) w)) = tasks w \<and>
   map ps_title (fst (summarize_papers env tenant_id ps w)) =
     map (\<lambda>p. get_or (p_title p) zh_unknown_title) ps \<and>
   (create_survey rec w = Inr w1 \<longrightarrow>
      map_option sv_progress
        (surveys (snd (generate_survey env id rec papers w)) (sv_id rec)) =
        Some (sv_progress rec) \<and>
      map_option sv_progress_msg
        (surveys (snd (generate_survey env id rec papers w)) (sv_id rec)) =
        Some (sv_progress_msg rec))"
proof -
  have 1: "surveys (snd (summarize_papers env tenant_id (take k ps) w)) = surveys w"
    by (subst summarize_papers_frame) simp
  have 2: "tasks (snd (summarize_papers env tenant_id (take k ps) w)) = tasks w"
    by (subst summarize_papers_frame) simp
  have 3: "create_survey rec w = Inr w1 \<Longrightarrow>
      map_option sv_progress
        (surveys (snd (generate_survey env id rec papers w)) (sv_id rec)) =
        Some (sv_progress rec) \<and>
      map_option sv_progress_msg
        (surveys (snd (generate_survey env id rec papers w)) (sv_id rec)) =
        Some (sv_progress_msg rec)"
    by (subst (1 2) generate_survey_world, assumption+) (simp split: sum.splits)
  show ?thesis using 1 2 3 summarize_papers_titles by blast
qed

theorem summaries_persist_no_progress_witness:
  "create_survey survey1 world0 = Inr world_pending \<and>
   surveys (snd (summarize_papers env0 ''t1'' (take 1 [paper1]) world_pending)) =
     surveys world_pending \<and>
   map_option sv_progress
     (surveys (snd (generate_survey env0 id survey1 [paper1] world0)) ''s1'') = Some 0 \<and>
   map_option sv_progress_msg
     (surveys (snd (generate_survey env0 id survey1 [paper1] world0)) ''s1'') = Some zh_waiting"
  using summaries_persist_no_progress
    [of env0 "''t1''" 1 "[paper1]" world_pending survey1 world_pending "[paper1]"]
    summaries_persist_no_progress
    [of env0 "''t1''" 1 "[paper1]" world0 survey1 world_pending "[paper1]"]
  by (simp add: create_survey1 survey1_fields)

text \<open>
  The claim as stated fails for a job with one paper (\<open>N = 1\<close>, \<open>k = 1\<close>): after the brief
  of the paper, and still at the end of \<open>generate_survey\<close>, the persisted progress is 0,
  not \<open>1 / 1\<close>, and the progress message is the one of the submission, without the title.
\<close>

theorem generate_survey_progress_not_advanced:
  "map_option sv_progress
     (surveys (snd (summarize_papers env0 ''t1'' [with_full_content env0 ''t1'' paper1]
                      world_pending)) ''s1'') = Some 0 \<and>
   map_option sv_progress
     (surveys (snd (generate_survey env0 id survey1 [paper1] world0)) ''s1'') = Some 0 \<and>
   map_option sv_progress_msg
     (surveys (snd (generate_survey env0 id survey1 [paper1] world0)) ''s1'') = Some zh_waiting \<and>
   Some (0 :: real) \<noteq> Some (1 / 1)"
proof -
  have 1: "surveys (snd (summarize_papers env0 ''t1'' [with_full_content env0 ''t1'' paper1]
                      world_pending)) = surveys world_pending"
    by (subst summarize_papers_frame) simp
  have 2: "surveys (snd (generate_survey env0 id survey1 [paper1] world0)) ''s1'' =
      Some (survey1\<lparr>sv_survey_content := ''text'', sv_status := ''completed''\<rparr>)"
    using generate_survey_row
        [where interleaved = id and r = survey1,
          OF create_survey1 survey_body_env0 [of survey1 "[paper1]" world_pending]]
    by (simp add: survey_body_surveys world_pending_row survey1_fields)
  show ?thesis
    unfolding 1 2 by (simp add: world_pending_row survey1_fields)
qed

section \<open>Submission when the queue refuses the task\<close>

lemma queue_survey_task_refused:
  assumes "\<forall>m. \<not> queue_product env (get_svr_queue_name env priority) m"
  shows "queue_survey_task env tid rec papers priority w =
     (Inl (Failure zh_redis_unreachable),
      update_survey (sv_id rec)
        (\<lambda>r. r\<lparr>sv_task_id := Some tid, sv_status := ''pending'', sv_progress := 0,
                sv_progress_msg := zh_waiting, sv_process_begin_at := Some (clock_now env)\<rparr>)
        (w\<lparr>tasks := (tasks w)(tid \<mapsto>
            \<lparr>t_id = tid, t_doc_id = sv_id rec, t_from_page = 0,
             t_to_page = length papers, t_task_type = ''paper_survey'', t_priority = priority,
             t_progress = 0,
             t_progress_msg = strftime env ''%H:%M:%S'' (clock_now env) @ zh_task_created,
             t_begin_at = clock_now env\<rparr>)\<rparr>))"
  using assms by (simp add: queue_survey_task_def Let_def)

lemma paper_survey_refused:
  assumes t: "user_tenant env u = Some tenant"
    and fresh: "surveys w sid = None"
    and down: "\<forall>m. \<not> queue_product env (get_svr_queue_name env 0) m"
  shows "fst (paper_survey env u sid tid srid papers title w) =
           ServerError (Failure zh_redis_unreachable) \<and>
         surveys (snd (paper_survey env u sid tid srid papers title w)) sid =
           Some \<lparr>sv_id = sid, sv_tenant_id = tenant, sv_user_id = u,
                  sv_search_record_id = srid, sv_survey_content = '''',
                  sv_survey_title = get_or title zh_default_title, sv_status = ''pending'',
                  sv_progress = 0,
                  sv_progress_msg = zh_waiting, sv_task_id = Some tid,
                  sv_process_begin_at = Some (clock_now env), sv_updated_at = None\<rparr> \<and>
         tasks (snd (paper_survey env u sid tid srid papers title w)) tid \<noteq> None \<and>
         redis_queue (snd (paper_survey env u sid tid srid papers title w)) = redis_queue w"
  using t fresh
  by (simp add: paper_survey_def create_survey_def Let_def
      queue_survey_task_refused [OF down] update_survey_def)

lemma redis_down_facts:
  "user_tenant env_redis_down ''u1'' = Some ''t1''"
  "surveys world0 ''s1'' = None"
  "\<forall>m. \<not> queue_product env_redis_down (get_svr_queue_name env_redis_down 0) m"
  by (simp_all add: user_tenant_def env_redis_down_def env0_def world0_def)

text \<open>
  Claim C3, as the code has it. When the push to Redis fails, \<open>queue_survey_task\<close> raises
  and the handler \<open>paper_survey\<close> answers the caller with a server error; nothing is rolled
  back: the survey record stays persisted with status \<open>pending\<close> and the id of the task,
  the task's row stays in the task table, and the queue holds no message for them.
\<close>

theorem paper_survey_enqueue_failure:
  assumes "user_tenant env u = Some tenant"
    and "surveys w sid = None"
    and "\<forall>m. \<not> queue_product env (get_svr_queue_name env 0) m"
  shows "fst (paper_survey env u sid tid srid papers title w) =
           ServerError (Failure zh_redis_unreachable) \<and>
         surveys (snd (paper_survey env u sid tid srid papers title w)) sid =
           Some \<lparr>sv_id = sid, sv_tenant_id = tenant, sv_user_id = u,
                  sv_search_record_id = srid, sv_survey_content = '''',
                  sv_survey_title = get_or title zh_default_title, sv_status = ''pending'',
                  sv_progress = 0,
                  sv_progress_msg = zh_waiting, sv_task_id = Some tid,
                  sv_process_begin_at = Some (clock_now env), sv_updated_at = None\<rparr> \<and>
         tasks (snd (paper_survey env u sid tid srid papers title w)) tid \<noteq> None \<and>
         redis_queue (snd (paper_survey env u sid tid srid papers title w)) = redis_queue w"
proof -
  note refused = queue_survey_task_refused [OF assms(3)]
  show ?thesis
    using assms(1,2)
    by (simp add: paper_survey_def create_survey_def Let_def refused update_survey_def)
qed

theorem paper_survey_enqueue_failure_witness:
  "user_tenant env_redis_down ''u1'' = Some ''t1'' \<and>
   surveys world0 ''s1'' = None \<and>
   (\<forall>m. \<not> queue_product env_redis_down (get_svr_queue_name env_redis_down 0) m) \<and>
   fst (paper_survey env_redis_down ''u1'' ''s1'' ''k1'' ''q1'' [paper1] (Some ''Survey'') world0) =
     ServerError (Failure zh_redis_unreachable) \<and>
   surveys (snd (paper_survey env_redis_down ''u1'' ''s1'' ''k1'' ''q1'' [paper1] (Some ''Survey'')
                   world0)) ''s1'' =
     Some (survey1\<lparr>sv_task_id := Some ''k1'',
                   sv_process_begin_at := Some (clock_now env_redis_down)\<rparr>) \<and>
   redis_queue (snd (paper_survey env_redis_down ''u1'' ''s1'' ''k1'' ''q1'' [paper1] (Some ''Survey'')
                       world0)) = []"
proof -
  note f = paper_survey_enqueue_failure
    [OF redis_down_facts, of "''k1''" "''q1''" "[paper1]" "Some ''Survey''"]
  have 1: "surveys (snd (paper_survey env_redis_down ''u1'' ''s1'' ''k1'' ''q1'' [paper1]
                   (Some ''Survey'') world0)) ''s1'' =
     Some (survey1\<lparr>sv_task_id := Some ''k1'',
                   sv_process_begin_at := Some (clock_now env_redis_down)\<rparr>)"
    using f by (simp add: survey1_def get_or_def)
  have 2: "redis_queue (snd (paper_survey env_redis_down ''u1'' ''s1'' ''k1'' ''q1'' [paper1]
                   (Some ''Survey'') world0)) = []"
    using f by (simp add: world0_def)
  show ?thesis
    using f 1 2 redis_down_facts by blast
qed

text \<open>
  The claim as stated fails: after the failed submission the record \<open>s1\<close> is persisted
  with status \<open>pending\<close> and the queue is empty.
\<close>

theorem paper_survey_leaves_pending_record:
  "fst (paper_survey env_redis_down ''u1'' ''s1'' ''k1'' ''q1'' [paper1] (Some ''Survey'') world0) =
     ServerError (Failure zh_redis_unreachable) \<and>
   map_option sv_status
     (surveys (snd (paper_survey env_redis_down ''u1'' ''s1'' ''k1'' ''q1'' [paper1] (Some ''Survey'')
                      world0)) ''s1'') = Some ''pending'' \<and>
   redis_queue (snd (paper_survey env_redis_down ''u1'' ''s1'' ''k1'' ''q1'' [paper1] (Some ''Survey'')
                       world0)) = []"
  using paper_survey_refused [OF redis_down_facts, of "''k1''" "''q1''" "[paper1]" "Some ''Survey''"]
  by (simp add: world0_def)

section \<open>Reading a survey\<close>

text \<open>
  Claim C6, at a failing input. The job \<open>s1\<close> belongs to user \<open>u1\<close> of tenant \<open>t1\<close>.
  User \<open>u2\<close> (tenant \<open>t2\<close>) asks for it: the handler \<open>get_survey\<close> answers with the job's
  data, where the lookup of the sibling handlers \<open>get_survey_progress\<close> and \<open>cancel_survey\<close>
  finds nothing for that user, and where an id that does not exist gives the
  not-found-or-forbidden error.
\<close>

theorem get_survey_serves_non_owner:
  "sv_user_id survey1 = ''u1'' \<and> sv_tenant_id survey1 = ''t1'' \<and>
   user_tenant env0 ''u2'' = Some ''t2'' \<and>
   get_survey_handler ''u2'' ''s1'' world_pending =
     JsonResult \<lparr>v_id = ''s1'', v_tenant_id = ''t1'', v_user_id = ''u1'',
                 v_search_record_id = ''q1'', v_survey_content = '''',
                 v_survey_title = ''Survey'', v_status = ''pending''\<rparr> \<and>
   get_own_survey ''u2'' ''s1'' world_pending = Inl DoesNotExist \<and>
   get_survey_handler ''u2'' ''nope'' world_pending = DataError zh_not_found_or_forbidden"
  by (simp add: get_survey_handler_def get_survey_def get_survey_where_def get_own_survey_def
      world_pending_def world0_def survey1_def user_tenant_def env0_def)

section \<open>Deleting a survey record\<close>

text \<open>
  Claim C7, as the code has it. \<open>delete_survey_record\<close> succeeds exactly when a record with
  that id exists and belongs to the requesting user and tenant, whatever its status, a
  processing job included; the record is then removed. Otherwise the request is rejected
  and nothing changes.
\<close>

theorem delete_survey_record_ownership_only:
  "(surveys w sid = Some r \<and> sv_user_id r = u \<and> sv_tenant_id r = t \<longrightarrow>
      delete_survey_record sid u t w = (True, w\<lparr>surveys := (surveys w)(sid := None)\<rparr>)) \<and>
   (\<not> (\<exists>r. surveys w sid = Some r \<and> sv_user_id r = u \<and> sv_tenant_id r = t) \<longrightarrow>
      delete_survey_record sid u t w = (False, w))"
  by (auto simp: delete_survey_record_def get_survey_where_def split: option.splits)

theorem delete_survey_record_ownership_only_witness:
  "surveys world_processing ''s1'' = Some (survey1\<lparr>sv_status := ''processing''\<rparr>) \<and>
   sv_user_id (survey1\<lparr>sv_status := ''processing''\<rparr>) = ''u1'' \<and>
   sv_tenant_id (survey1\<lparr>sv_status := ''processing''\<rparr>) = ''t1'' \<and>
   delete_survey_record ''s1'' ''u1'' ''t1'' world_processing =
     (True, world_processing\<lparr>surveys := (surveys world_processing)(''s1'' := None)\<rparr>) \<and>
   \<not> (\<exists>r. surveys world_processing ''s1'' = Some r \<and> sv_user_id r = ''u2'' \<and>
          sv_tenant_id r = ''t2'') \<and>
   delete_survey_record ''s1'' ''u2'' ''t2'' world_processing = (False, world_processing)"
proof -
  have r: "surveys world_processing ''s1'' = Some (survey1\<lparr>sv_status := ''processing''\<rparr>)"
    by (simp add: world_processing_def world0_def)
  have o: "sv_user_id (survey1\<lparr>sv_status := ''processing''\<rparr>) = ''u1''"
    "sv_tenant_id (survey1\<lparr>sv_status := ''processing''\<rparr>) = ''t1''"
    by (simp_all add: survey1_def)
  have n: "\<not> (\<exists>r. surveys world_processing ''s1'' = Some r \<and> sv_user_id r = ''u2'' \<and>
          sv_tenant_id r = ''t2'')"
    by (simp add: r o)
  show ?thesis
    using delete_survey_record_ownership_only
        [of world_processing "''s1''" "survey1\<lparr>sv_status := ''processing''\<rparr>" "''u1''" "''t1''"]
      delete_survey_record_ownership_only
        [of world_processing "''s1''" "survey1\<lparr>sv_status := ''processing''\<rparr>" "''u2''" "''t2''"]
      r o n
    by blast
qed

text \<open>
  The claim as stated fails: the owner's delete request on the job \<open>s1\<close>, whose status is
  \<open>processing\<close>, succeeds and the record is gone.
\<close>

theorem delete_survey_record_while_processing:
  "map_option sv_status (surveys world_processing ''s1'') = Some ''processing'' \<and>
   fst (delete_survey_record_handler env0 ''u1'' ''s1'' world_processing) = JsonResult True \<and>
   surveys (snd (delete_survey_record_handler env0 ''u1'' ''s1'' world_processing)) ''s1'' = None"
  by (simp add: delete_survey_record_handler_def delete_survey_record_def get_survey_where_def
      world_processing_def world0_def survey1_def user_tenant_def env0_def)

section \<open>Retrieval degrades to an empty result\<close>








lemma parse_text:
  "json_loads env = json_loads env0 \<Longrightarrow>
     parse_keyword_response env ''text'' =
       Inr \<lparr>keyword_en = JList [], keyword_cn = JList [], searchquery_en = JList [],
            searchquery_cn = JList [], time_range = JList []\<rparr>"
  by (simp add: parse_keyword_response_def clean_response_def strip_def strip_chars_def
      is_space_def strip_json_fence_def fence_pattern_def fence_replacement_def env0_def
      kw_answer_def null_answer_def parse_list_str_def match_list_field_def dquote_def Let_def)



text \<open>An exception of the embedding model or of the retriever is an exception of the
  retrieval; a keyword field that cannot be joined makes the search raise.\<close>

lemma retrieve_papers_embedding_raises:
  "embedding_model env (kb_tenant_id b) (kb_embd_id b) = Inl e \<Longrightarrow>
     retrieve_papers env q (b # bs) = Inl e"
  by (simp add: retrieve_papers_def)












section \<open>The fallback of the Word document\<close>

text \<open>The encoder answers with the bytes of a text exactly when every code point of the
  text has an encoding.\<close>

lemma utf8_char_encodable: "encodable c \<Longrightarrow> \<exists>bs. utf8_char c = Some bs \<and> bs \<noteq> []"
  by (auto simp: encodable_def utf8_char_def)

lemma utf8_char_not_encodable: "\<not> encodable c \<Longrightarrow> utf8_char c = None"
  by (auto simp: encodable_def utf8_char_def)

lemma utf8_encode_encodable: "list_all encodable s \<Longrightarrow> utf8_encode s = Inr (utf8_bytes s)"
proof (induction s)
  case Nil
  show ?case by (simp add: utf8_bytes_def)
next
  case (Cons c cs)
  then obtain bs where "utf8_char c = Some bs" using utf8_char_encodable by auto
  with Cons show ?case by (simp add: utf8_bytes_def)
qed

lemma utf8_encode_not_encodable:
  "\<not> list_all encodable s \<Longrightarrow> utf8_encode s = Inl UnicodeEncodeError"
proof (induction s)
  case Nil
  then show ?case by simp
next
  case (Cons c cs)
  show ?case
  proof (cases "encodable c")
    case True
    then obtain bs where "utf8_char c = Some bs" using utf8_char_encodable by auto
    with Cons True show ?thesis by simp
  next
    case False
    then show ?thesis by (simp add: utf8_char_not_encodable)
  qed
qed

lemma utf8_bytes_append: "utf8_bytes (a @ b) = utf8_bytes a @ utf8_bytes b"
  by (simp add: utf8_bytes_def)

lemma utf8_bytes_Cons:
  "utf8_bytes (c # cs) = (case utf8_char c of Some bs \<Rightarrow> bs | None \<Rightarrow> []) @ utf8_bytes cs"
  by (simp add: utf8_bytes_def)

lemma utf8_bytes_Nil: "utf8_bytes [] = []"
  by (simp add: utf8_bytes_def)

lemma encodable_ustr_of: "list_all encodable (ustr_of s)"
proof -
  have "encodable (of_char c)" for c :: char
  proof -
    have "(of_char c :: nat) mod 256 < 256" by simp
    then have "(of_char c :: nat) < 256" by (simp only: of_char_mod_256)
    then show ?thesis unfolding encodable_def by linarith
  qed
  then show ?thesis by (simp add: ustr_of_def list_all_iff)
qed

lemma utf8_label:
  "utf8_bytes generated_at_label =
     [231, 148, 159, 230, 136, 144, 230, 151, 182, 233, 151, 180, 58, 32]"
  by (simp add: generated_at_label_def utf8_bytes_def utf8_char_def)

lemma encodable_label: "list_all encodable generated_at_label"
  by (simp add: generated_at_label_def encodable_def)

lemma utf8_bytes_ascii: "c < 128 \<Longrightarrow> utf8_bytes (c # cs) = c # utf8_bytes cs"
  by (simp add: utf8_bytes_def utf8_char_def)

lemma fallback_encodable:
  "list_all encodable (title @ [10, 10] @ content @ [10, 10] @ generated_at_label @ time_stamp env)
     = list_all encodable (title @ content)"
  using encodable_ustr_of [of "strftime env ''%Y-%m-%d %H:%M:%S'' (clock_now env)"]
        encodable_label
  by (auto simp: time_stamp_def encodable_def)

text \<open>The only exception of the building of the blocks is the \<open>ValueError\<close> of a
  conversion; facts of the concrete runs.\<close>

lemma cited_indices_raises: "cited_indices ds = Inl e \<Longrightarrow> e = ValueError"
  by (induction ds arbitrary: e)
     (auto simp: int_of_digits_def split: if_splits sum.splits)

lemma word_document_try_library_raises:
  assumes "\<And>blocks. docx_save env blocks = Inl ValueError"
  shows "word_document_try env content title papers = Inl ValueError"
  using assms cited_indices_raises [of "find_citations content"]
  by (auto simp: word_document_try_def document_blocks_def Let_def split: sum.splits)

lemma env_docx_down_fields:
  "docx_save env_docx_down blocks = Inl ValueError"
  "time_stamp env_docx_down = ustr_of ''2025-01-01 12:00:00''"
  by (simp_all add: env_docx_down_def env0_def time_stamp_def)

lemma utf8_time_stamp0:
  "utf8_bytes (ustr_of ''2025-01-01 12:00:00'') =
     [50, 48, 50, 53, 45, 48, 49, 45, 48, 49, 32, 49, 50, 58, 48, 48, 58, 48, 48]"
  by (simp add: ustr_of_def utf8_bytes_def utf8_char_def)

lemma word_document_try_env0:
  "word_document_try env0 [97] [84] [] = Inr [80, 75]"
  by (simp add: word_document_try_def document_blocks_def match_citation_def env0_def)

text \<open>
  Claim C10, as the code has it. When building and saving the document succeeds, the
  function returns the bytes that the library saved. When it raises and neither the title
  nor the content holds a lone surrogate, the function returns the UTF-8 bytes of the
  title, two newlines, the content, two newlines, the label of the time stamp and the time
  stamp, which are never empty. When it raises and the title or the content holds a lone
  surrogate, the \<open>encode\<close> of the \<open>except\<close> branch raises \<open>UnicodeEncodeError\<close>, which
  leaves the function: it is not total.
\<close>

theorem generate_word_document_fallback:
  "(word_document_try env content title papers = Inr file_bytes \<longrightarrow>
      generate_word_document env content title papers = Inr file_bytes) \<and>
   (word_document_try env content title papers = Inl e \<and> list_all encodable (title @ content) \<longrightarrow>
      generate_word_document env content title papers =
        Inr (utf8_bytes title @ [10, 10] @ utf8_bytes content @ [10, 10]
               @ [231, 148, 159, 230, 136, 144, 230, 151, 182, 233, 151, 180, 58, 32]
               @ utf8_bytes (time_stamp env)) \<and>
      generate_word_document env content title papers \<noteq> Inr []) \<and>
   (word_document_try env content title papers = Inl e \<and>
      \<not> list_all encodable (title @ content) \<longrightarrow>
      generate_word_document env content title papers = Inl UnicodeEncodeError)"
proof (intro conjI impI)
  assume "word_document_try env content title papers = Inr file_bytes"
  then show "generate_word_document env content title papers = Inr file_bytes"
    by (simp add: generate_word_document_def)
next
  assume a: "word_document_try env content title papers = Inl e \<and>
             list_all encodable (title @ content)"
  then have "list_all encodable
               (title @ [10, 10] @ content @ [10, 10] @ generated_at_label @ time_stamp env)"
    using fallback_encodable [of title content env] by blast
  from utf8_encode_encodable [OF this] a
  show r: "generate_word_document env content title papers =
        Inr (utf8_bytes title @ [10, 10] @ utf8_bytes content @ [10, 10]
               @ [231, 148, 159, 230, 136, 144, 230, 151, 182, 233, 151, 180, 58, 32]
               @ utf8_bytes (time_stamp env))"
    by (simp add: generate_word_document_def utf8_bytes_append utf8_bytes_ascii utf8_label)
  show "generate_word_document env content title papers \<noteq> Inr []"
    unfolding r by simp
next
  assume a: "word_document_try env content title papers = Inl e \<and>
             \<not> list_all encodable (title @ content)"
  then have "\<not> list_all encodable
               (title @ [10, 10] @ content @ [10, 10] @ generated_at_label @ time_stamp env)"
    using fallback_encodable [of title content env] by blast
  from utf8_encode_not_encodable [OF this] a
  show "generate_word_document env content title papers = Inl UnicodeEncodeError"
    by (simp add: generate_word_document_def)
qed


theorem generate_word_document_fallback_witness:
  "word_document_try env0 [97] [84] [] = Inr [80, 75] \<and>
   generate_word_document env0 [97] [84] [] = Inr [80, 75] \<and>
   word_document_try env_docx_down [97, 0, 233, 128512] [84] [] = Inl ValueError \<and>
   list_all encodable ([84] @ [97, 0, 233, 128512]) \<and>
   generate_word_document env_docx_down [97, 0, 233, 128512] [84] [] =
     Inr [84, 10, 10, 97, 0, 195, 169, 240, 159, 152, 128, 10, 10,
          231, 148, 159, 230, 136, 144, 230, 151, 182, 233, 151, 180, 58, 32,
          50, 48, 50, 53, 45, 48, 49, 45, 48, 49, 32, 49, 50, 58, 48, 48, 58, 48, 48] \<and>
   word_document_try env_docx_down [97, 56320] [84] [] = Inl ValueError \<and>
   \<not> list_all encodable ([84] @ [97, 56320]) \<and>
   generate_word_document env_docx_down [97, 56320] [84] [] = Inl UnicodeEncodeError"
proof -
  have t: "word_document_try env_docx_down content title papers = Inl ValueError"
    for content title papers
    by (rule word_document_try_library_raises) (rule env_docx_down_fields(1))
  have e1: "list_all encodable ([84] @ [97, 0, 233, 128512])"
    and e2: "\<not> list_all encodable ([84] @ [97, 56320])"
    by (simp_all add: encodable_def)
  have b: "utf8_bytes [84] = [84]" "utf8_bytes [97, 0, 233, 128512] =
             [97, 0, 195, 169, 240, 159, 152, 128]"
    by (simp_all add: utf8_bytes_def utf8_char_def)
  note g0 = generate_word_document_fallback
              [of env0 "[97]" "[84]" "[]" "[80, 75]" ValueError]
  note g1 = generate_word_document_fallback
              [of env_docx_down "[97, 0, 233, 128512]" "[84]" "[]" "[]" ValueError]
  note g2 = generate_word_document_fallback
              [of env_docx_down "[97, 56320]" "[84]" "[]" "[]" ValueError]
  have 0: "generate_word_document env0 [97] [84] [] = Inr [80, 75]"
    using g0 word_document_try_env0 by blast
  have 1: "generate_word_document env_docx_down [97, 0, 233, 128512] [84] [] =
             Inr (utf8_bytes [84] @ [10, 10] @ utf8_bytes [97, 0, 233, 128512] @ [10, 10]
               @ [231, 148, 159, 230, 136, 144, 230, 151, 182, 233, 151, 180, 58, 32]
               @ utf8_bytes (time_stamp env_docx_down))"
    using g1 t e1 by blast
  have 2: "generate_word_document env_docx_down [97, 56320] [84] [] = Inl UnicodeEncodeError"
    using g2 t e2 by blast
  show ?thesis
    unfolding 0 1 2 b env_docx_down_fields(2) utf8_time_stamp0
    using t e1 e2 word_document_try_env0 by simp
qed

text \<open>
  The claim as stated fails: for a title with the lone surrogate \<open>0xD800\<close> and a library
  that raises, the function raises instead of returning bytes.
\<close>

theorem generate_word_document_raises_on_surrogate:
  "word_document_try env_docx_down [120] [84, 55296] [] = Inl ValueError \<and>
   generate_word_document env_docx_down [120] [84, 55296] [] = Inl UnicodeEncodeError"
proof -
  have t: "word_document_try env_docx_down [120] [84, 55296] [] = Inl ValueError"
    by (rule word_document_try_library_raises) (rule env_docx_down_fields(1))
  have "\<not> list_all encodable
            ([84, 55296] @ [10, 10] @ [120] @ [10, 10] @ generated_at_label
               @ time_stamp env_docx_down)"
    by (simp add: encodable_def)
  from utf8_encode_not_encodable [OF this] t show ?thesis
    by (simp add: generate_word_document_def)
qed

end
